theory Spec2Isabelle
  imports Complex_Main "HOL-Library.Sublist" "HOL-Library.AList"
begin

section \<open>JavaScript values\<close>

text \<open>
  The program handles parsed JSON (\<^verbatim>\<open>await response.json()\<close>, tool arguments typed
  \<^verbatim>\<open>any\<close>) and relies on JavaScript's truthiness, optional chaining and implicit string
  conversion.  A JSON number is a finite IEEE double, taken here as the real it denotes; the
  program does no arithmetic on them.  \<^verbatim>\<open>undefined\<close> is the \<open>None\<close> of \<open>json option\<close>.
\<close>

datatype json =
    JNull
  | JBool bool
  | JNum real
  | JStr string
  | JArr "json list"
  | JObj "(string \<times> json) list"

text \<open>What a \<^verbatim>\<open>throw\<close> or a rejected promise carries.\<close>

datatype js_error =
    Error string \<comment> \<open>\<^verbatim>\<open>new Error(message)\<close>, the only error this program constructs\<close>
  | TypeError string \<comment> \<open>raised by the engine: property of null/undefined, call of a non-function\<close>
  | RuntimeFailure string \<comment> \<open>any other \<^verbatim>\<open>Error\<close> instance rejected by a library, with its message\<close>
  | ThrownValue string \<comment> \<open>a thrown value that is no \<^verbatim>\<open>Error\<close> instance, with its \<^verbatim>\<open>String()\<close>\<close>

text \<open>\<^verbatim>\<open>error instanceof Error ? error.message : String(error)\<close>\<close>

fun error_text :: "js_error \<Rightarrow> string" where
  "error_text (Error m) = m"
| "error_text (TypeError m) = m"
| "error_text (RuntimeFailure m) = m"
| "error_text (ThrownValue s) = s"

fun truthy :: "json option \<Rightarrow> bool" where
  "truthy None = False"
| "truthy (Some JNull) = False"
| "truthy (Some (JBool b)) = b"
| "truthy (Some (JNum n)) = (n \<noteq> 0)"
| "truthy (Some (JStr s)) = (s \<noteq> [])"
| "truthy (Some (JArr xs)) = True"
| "truthy (Some (JObj kvs)) = True"

text \<open>Truthiness and \<^verbatim>\<open>a || b\<close> on the optional strings of the typed signatures.\<close>

fun truthy_str :: "string option \<Rightarrow> bool" where
  "truthy_str None = False"
| "truthy_str (Some s) = (s \<noteq> [])"

definition or_str :: "string option \<Rightarrow> string option \<Rightarrow> string option" where
  "or_str a b = (if truthy_str a then a else b)"

text \<open>
  Property access \<^verbatim>\<open>v.k\<close> for the property names the program reads (none of them is
  defined on the prototypes of strings, numbers, booleans or arrays), and the optional
  chain \<^verbatim>\<open>v?.k\<close>.
\<close>

fun get_prop :: "string \<Rightarrow> json option \<Rightarrow> js_error + json option" where
  "get_prop k None =
     Inl (TypeError (''Cannot read properties of undefined (reading '' @ [CHR 0x27] @ k @ [CHR 0x27] @ '')''))"
| "get_prop k (Some JNull) =
     Inl (TypeError (''Cannot read properties of null (reading '' @ [CHR 0x27] @ k @ [CHR 0x27] @ '')''))"
| "get_prop k (Some (JObj kvs)) = Inr (map_of kvs k)"
| "get_prop k (Some v) = Inr None"

fun opt_chain :: "string \<Rightarrow> json option \<Rightarrow> json option" where
  "opt_chain k None = None"
| "opt_chain k (Some JNull) = None"
| "opt_chain k (Some (JObj kvs)) = map_of kvs k"
| "opt_chain k (Some v) = None"

text \<open>Decimal rendering of a non-negative integer, as \<^verbatim>\<open>String(n)\<close> gives it.\<close>

definition digit_char :: "nat \<Rightarrow> char" where
  "digit_char d =
     (if d = 0 then CHR ''0'' else if d = 1 then CHR ''1'' else if d = 2 then CHR ''2''
      else if d = 3 then CHR ''3'' else if d = 4 then CHR ''4'' else if d = 5 then CHR ''5''
      else if d = 6 then CHR ''6'' else if d = 7 then CHR ''7'' else if d = 8 then CHR ''8''
      else CHR ''9'')"

fun string_of_nat :: "nat \<Rightarrow> string" where
  "string_of_nat n =
     (if n < 10 then [digit_char n]
      else string_of_nat (n div 10) @ [digit_char (n mod 10)])"

declare string_of_nat.simps [simp del]

text \<open>\<^verbatim>\<open>Array.prototype.join\<close>\<close>

fun join :: "string \<Rightarrow> string list \<Rightarrow> string" where
  "join sep [] = []"
| "join sep [x] = x"
| "join sep (x # y # ys) = x @ sep @ join sep (y # ys)"

text \<open>
  \<^verbatim>\<open>String(v)\<close>, which a template literal and \<^verbatim>\<open>+=\<close> on a string apply; \<open>num\<close> is the
  engine's rendering of a number.  An array is joined with commas, \<^verbatim>\<open>null\<close> elements
  rendering as the empty string.
\<close>

fun json_toString :: "(real \<Rightarrow> string) \<Rightarrow> json \<Rightarrow> string" where
  "json_toString num JNull = ''null''"
| "json_toString num (JBool b) = (if b then ''true'' else ''false'')"
| "json_toString num (JNum n) = num n"
| "json_toString num (JStr s) = s"
| "json_toString num (JArr xs) =
     join '','' (map (\<lambda>x. if x = JNull then [] else json_toString num x) xs)"
| "json_toString num (JObj kvs) = ''[object Object]''"

fun js_toString :: "(real \<Rightarrow> string) \<Rightarrow> json option \<Rightarrow> string" where
  "js_toString num None = ''undefined''"
| "js_toString num (Some v) = json_toString num v"

text \<open>
  \<^verbatim>\<open>Object.keys(v)\<close> for a value that is neither null nor undefined.  A \<open>JObj\<close> lists
  its properties in the object's own enumeration order.
\<close>

fun object_keys :: "json \<Rightarrow> string list" where
  "object_keys (JObj kvs) = map fst kvs"
| "object_keys (JArr xs) = map string_of_nat [0..<length xs]"
| "object_keys (JStr s) = map string_of_nat [0..<length s]"
| "object_keys v = []"

section \<open>The runtime: network, clock, environment\<close>

record RequestInit =
  "method" :: "string option"
  headers :: "(string \<times> string) list option"
  body :: "string option"

text \<open>
  A \<^verbatim>\<open>Response\<close> as the program reads it; \<open>json_body\<close> is what \<^verbatim>\<open>await response.json()\<close>
  gives: the parsed body, or the error it rejects with when the body is not JSON.  The
  fields \<open>ok\<close> and \<open>status\<close> are read independently, as the program and its tests do; a
  real \<^verbatim>\<open>fetch\<close> sets \<open>ok\<close> for the statuses 200 to 299.
\<close>

record Response =
  ok :: bool
  status :: nat
  statusText :: string
  json_body :: "js_error + json"

text \<open>
  The outbound calls the program can make.  Each one is appended to the \<open>trace\<close> of the
  state when it is issued, so that the order of the calls, and their absence, can be
  stated.
\<close>

datatype call =
    Fetch string RequestInit \<comment> \<open>\<^verbatim>\<open>fetch(url, init)\<close>\<close>
  | EmbeddingsCreate string string \<comment> \<open>\<^verbatim>\<open>openai.embeddings.create({model, input})\<close>\<close>

text \<open>
  Everything outside the program: the remote services answer from a world \<open>'w\<close> that each
  call may change, the clock is read from it, and the engine's renderings are given.
\<close>

record 'w runtime =
  fetch :: "string \<Rightarrow> RequestInit \<Rightarrow> 'w \<Rightarrow> (js_error + Response) \<times> 'w"
  embeddings_create :: "string \<Rightarrow> string \<Rightarrow> 'w \<Rightarrow> (js_error + real list list) \<times> 'w"
  date_now :: "'w \<Rightarrow> nat \<times> 'w"
  process_env :: "string \<Rightarrow> string option"
  json_stringify :: "json \<Rightarrow> string"
  json_stringify_indent :: "json \<Rightarrow> string"
  number_toString :: "real \<Rightarrow> string"
  number_toFixed :: "nat \<Rightarrow> real \<Rightarrow> string"
  date_toISOString :: "nat \<Rightarrow> string"

record 'w io_state =
  world :: 'w
  trace :: "call list"

type_synonym ('a, 'w) io = "'w io_state \<Rightarrow> (js_error + 'a) \<times> 'w io_state"

definition return_io :: "'a \<Rightarrow> ('a, 'w) io" where
  "return_io x s = (Inr x, s)"

definition throw_io :: "js_error \<Rightarrow> ('a, 'w) io" where
  "throw_io e s = (Inl e, s)"

text \<open>Sequencing: an error of the first step skips the rest, as a \<^verbatim>\<open>throw\<close> does.\<close>

definition bind_io :: "('a, 'w) io \<Rightarrow> ('a \<Rightarrow> ('b, 'w) io) \<Rightarrow> ('b, 'w) io" where
  "bind_io m f s = (case m s of (Inl e, s') \<Rightarrow> (Inl e, s') | (Inr x, s') \<Rightarrow> f x s')"

text \<open>\<^verbatim>\<open>try { m } catch (error) { h error }\<close>\<close>

definition try_catch :: "('a, 'w) io \<Rightarrow> (js_error \<Rightarrow> ('a, 'w) io) \<Rightarrow> ('a, 'w) io" where
  "try_catch m h s = (case m s of (Inl e, s') \<Rightarrow> h e s' | (Inr x, s') \<Rightarrow> (Inr x, s'))"

text \<open>A step that touches neither network nor clock but may throw.\<close>

definition lift_result :: "js_error + 'a \<Rightarrow> ('a, 'w) io" where
  "lift_result r s = (r, s)"

definition do_fetch :: "'w runtime \<Rightarrow> string \<Rightarrow> RequestInit \<Rightarrow> (Response, 'w) io" where
  "do_fetch rt u init s =
     (case fetch rt u init (world s) of
        (r, w') \<Rightarrow> (r, s\<lparr>world := w', trace := trace s @ [Fetch u init]\<rparr>))"

definition do_embeddings_create :: "'w runtime \<Rightarrow> string \<Rightarrow> string \<Rightarrow> (real list list, 'w) io" where
  "do_embeddings_create rt model input s =
     (case embeddings_create rt model input (world s) of
        (r, w') \<Rightarrow> (r, s\<lparr>world := w', trace := trace s @ [EmbeddingsCreate model input]\<rparr>))"

definition do_date_now :: "'w runtime \<Rightarrow> (nat, 'w) io" where
  "do_date_now rt s = (case date_now rt (world s) of (t, w') \<Rightarrow> (Inr t, s\<lparr>world := w'\<rparr>))"

text \<open>\<^verbatim>\<open>await response.json()\<close>\<close>

definition response_json :: "Response \<Rightarrow> (json, 'w) io" where
  "response_json response = lift_result (json_body response)"

section \<open>client.ts: the Qdrant HTTP client\<close>

text \<open>
  \<^verbatim>\<open>QdrantConfig\<close>; its field \<^verbatim>\<open>defaultCollection\<close>, which the client never reads, is
  \<open>cfg_defaultCollection\<close> here, the server having a field of that name too.
\<close>

record QdrantConfig =
  url :: string
  apiKey :: "string option"
  cfg_defaultCollection :: "string option"

text \<open>
  The \<^verbatim>\<open>init\<close> that \<^verbatim>\<open>makeRequest\<close> hands to \<^verbatim>\<open>fetch\<close>: the caller's options with the
  headers replaced by \<^verbatim>\<open>Content-Type\<close>, then the caller's own, then the API key if set.
\<close>

definition request_init :: "QdrantConfig \<Rightarrow> RequestInit \<Rightarrow> RequestInit" where
  "request_init config options =
     (let hs = fold (\<lambda>(k, v). AList.update k v)
                 (case headers options of None \<Rightarrow> [] | Some h \<Rightarrow> h)
                 [(''Content-Type'', ''application/json'')];
          hs' = (case apiKey config of
                   None \<Rightarrow> hs
                 | Some key \<Rightarrow> if key \<noteq> [] then AList.update ''api-key'' key hs else hs)
      in options\<lparr>headers := Some hs'\<rparr>)"

definition makeRequest :: "QdrantConfig \<Rightarrow> 'w runtime \<Rightarrow> string \<Rightarrow> RequestInit \<Rightarrow> (Response, 'w) io" where
  "makeRequest config rt endpoint options =
     do_fetch rt (url config @ endpoint) (request_init config options)"

text \<open>The options \<^verbatim>\<open>createCollection\<close> passes to \<^verbatim>\<open>makeRequest\<close>.\<close>

definition createCollection_init :: "'w runtime \<Rightarrow> real \<Rightarrow> RequestInit" where
  "createCollection_init rt vectorSize =
     \<lparr>method = Some ''PUT'', headers = None,
      body = Some (json_stringify rt
               (JObj [(''vectors'', JObj [(''size'', JNum vectorSize),
                                          (''distance'', JStr ''Cosine'')])]))\<rparr>"

definition createCollection :: "QdrantConfig \<Rightarrow> 'w runtime \<Rightarrow> string \<Rightarrow> real \<Rightarrow> (unit, 'w) io" where
  "createCollection config rt collectionName vectorSize =
     bind_io (makeRequest config rt (''/collections/'' @ collectionName)
                (createCollection_init rt vectorSize))
       (\<lambda>response.
          if \<not> ok response \<and> status response \<noteq> 409
          then throw_io (Error (''Failed to create collection: '' @ statusText response))
          else return_io ())"

text \<open>\<^verbatim>\<open>a || d\<close> on values, where \<open>d\<close> is a defined value.\<close>

fun js_or_val :: "json option \<Rightarrow> json \<Rightarrow> json" where
  "js_or_val None d = d"
| "js_or_val (Some v) d = (if truthy (Some v) then v else d)"

definition bind_result :: "js_error + 'a \<Rightarrow> ('a \<Rightarrow> js_error + 'b) \<Rightarrow> js_error + 'b" where
  "bind_result r f = (case r of Inl e \<Rightarrow> Inl e | Inr x \<Rightarrow> f x)"

text \<open>\<^verbatim>\<open>a || rest\<close> where evaluating \<open>rest\<close> may throw.\<close>

fun short_or :: "json option \<Rightarrow> js_error + json \<Rightarrow> js_error + json" where
  "short_or None rest = rest"
| "short_or (Some v) rest = (if truthy (Some v) then Inr v else rest)"

text \<open>
  The block that \<^verbatim>\<open>upsertPoints\<close> and \<^verbatim>\<open>searchPoints\<close> both run on a response that is
  not ok:
  \<^verbatim>\<open>
  let errorDetails = response.statusText;
  try {
    const errorResponse = (await response.json()) as any;
    errorDetails = errorResponse.error?.message || errorResponse.status?.error
                   || JSON.stringify(errorResponse);
  } catch { }
  \<close>
  \<open>errorDetails_try\<close> is the body of the \<^verbatim>\<open>try\<close>, \<open>errorDetails_of\<close> the value of
  \<^verbatim>\<open>errorDetails\<close> after the block: whatever the chosen field holds, a string for the
  bodies Qdrant sends.
\<close>

definition errorDetails_try :: "'w runtime \<Rightarrow> Response \<Rightarrow> js_error + json" where
  "errorDetails_try rt response =
     bind_result (json_body response) (\<lambda>errorResponse.
     bind_result (get_prop ''error'' (Some errorResponse)) (\<lambda>err.
       short_or (opt_chain ''message'' err)
         (bind_result (get_prop ''status'' (Some errorResponse)) (\<lambda>st.
            short_or (opt_chain ''error'' st)
              (Inr (JStr (json_stringify rt errorResponse)))))))"

definition errorDetails_of :: "'w runtime \<Rightarrow> Response \<Rightarrow> json" where
  "errorDetails_of rt response =
     (case errorDetails_try rt response of
        Inl e \<Rightarrow> JStr (statusText response)
      | Inr d \<Rightarrow> d)"

definition upsertPoints_init :: "'w runtime \<Rightarrow> json list \<Rightarrow> RequestInit" where
  "upsertPoints_init rt points =
     \<lparr>method = Some ''PUT'', headers = None,
      body = Some (json_stringify rt (JObj [(''points'', JArr points)]))\<rparr>"

definition upsertPoints :: "QdrantConfig \<Rightarrow> 'w runtime \<Rightarrow> string \<Rightarrow> json list \<Rightarrow> (unit, 'w) io" where
  "upsertPoints config rt collectionName points =
     bind_io (makeRequest config rt (''/collections/'' @ collectionName @ ''/points'')
                (upsertPoints_init rt points))
       (\<lambda>response.
          if \<not> ok response
          then throw_io (Error (''Failed to upsert points in collection '' @ [CHR 0x27]
                 @ collectionName @ [CHR 0x27] @ '': ''
                 @ json_toString (number_toString rt) (errorDetails_of rt response)))
          else return_io ())"

text \<open>\<^verbatim>\<open>requestBody\<close> of \<^verbatim>\<open>searchPoints\<close>; the parameter \<^verbatim>\<open>limit\<close> defaults to 5.\<close>

definition search_requestBody :: "real list \<Rightarrow> real option \<Rightarrow> string option \<Rightarrow> json" where
  "search_requestBody queryVector limit vectorName =
     JObj [(''limit'', JNum (case limit of None \<Rightarrow> 5 | Some l \<Rightarrow> l)),
           (''with_payload'', JBool True),
           (''vector'',
              (if truthy_str vectorName
               then JObj [(''name'', JStr (case vectorName of None \<Rightarrow> [] | Some n \<Rightarrow> n)),
                          (''vector'', JArr (map JNum queryVector))]
               else JArr (map JNum queryVector)))]"

definition searchPoints_init :: "'w runtime \<Rightarrow> json \<Rightarrow> RequestInit" where
  "searchPoints_init rt requestBody =
     \<lparr>method = Some ''POST'', headers = None, body = Some (json_stringify rt requestBody)\<rparr>"

text \<open>
  \<^verbatim>\<open>errorDetails.includes(s)\<close>: substring test on a string, membership on an array, and
  a \<^verbatim>\<open>TypeError\<close> on any other value, which has no such method.
\<close>

fun js_includes :: "json \<Rightarrow> string \<Rightarrow> js_error + bool" where
  "js_includes (JStr s) needle = Inr (sublist needle s)"
| "js_includes (JArr xs) needle = Inr (List.member xs (JStr needle))"
| "js_includes JNull needle =
     Inl (TypeError ''Cannot read properties of null (reading 'includes')'')"
| "js_includes v needle = Inl (TypeError ''errorDetails.includes is not a function'')"

definition vector_name_hint :: string where
  "vector_name_hint = ''. Hint: Try setting a vector name (e.g., \"dense\" or \"sparse\")''"

text \<open>
  \<^verbatim>\<open>
  if (errorDetails.includes('requires specified vector name') && !vectorName)
    errorDetails += '. Hint: ...';
  \<close>
\<close>

definition with_hint :: "'w runtime \<Rightarrow> json \<Rightarrow> string option \<Rightarrow> js_error + json" where
  "with_hint rt errorDetails vectorName =
     bind_result (js_includes errorDetails ''requires specified vector name'') (\<lambda>mentions.
       if mentions \<and> \<not> truthy_str vectorName
       then Inr (JStr (json_toString (number_toString rt) errorDetails @ vector_name_hint))
       else Inr errorDetails)"

definition searchPoints ::
  "QdrantConfig \<Rightarrow> 'w runtime \<Rightarrow> string \<Rightarrow> real list \<Rightarrow> real option \<Rightarrow> string option \<Rightarrow> (json, 'w) io" where
  "searchPoints config rt collectionName queryVector limit vectorName =
     (let requestBody = search_requestBody queryVector limit vectorName in
      bind_io (makeRequest config rt (''/collections/'' @ collectionName @ ''/points/search'')
                 (searchPoints_init rt requestBody))
        (\<lambda>response.
           if \<not> ok response
           then bind_io (lift_result (with_hint rt (errorDetails_of rt response) vectorName))
                  (\<lambda>errorDetails.
                     throw_io (Error (''Failed to search points in collection '' @ [CHR 0x27]
                       @ collectionName @ [CHR 0x27] @ '': ''
                       @ json_toString (number_toString rt) errorDetails
                       @ ''. Request: '' @ json_stringify rt requestBody)))
           else bind_io (response_json response)
                  (\<lambda>result.
                     bind_io (lift_result (get_prop ''result'' (Some result)))
                       (\<lambda>r. return_io (js_or_val r (JArr []))))))"

section \<open>server.ts: the tool operations\<close>

datatype VectorName = Dense | Sparse

fun vector_name_string :: "VectorName \<Rightarrow> string" where
  "vector_name_string Dense = ''dense''"
| "vector_name_string Sparse = ''sparse''"

record collection_args =
  collection_name :: "string option"

record store_args = collection_args +
  information :: string
  metadata :: "json option"

record find_args = collection_args +
  query :: string
  vector_name :: "VectorName option"

text \<open>A \<^verbatim>\<open>CallToolResult\<close>: the texts of its content items, all of type \<^verbatim>\<open>'text'\<close>.\<close>

type_synonym CallToolResult = "string list"

record QdrantMCPServer =
  qdrantClient :: QdrantConfig
  defaultCollection :: "string option"

text \<open>The constructor, reading the process environment once.\<close>

definition new_QdrantMCPServer :: "(string \<Rightarrow> string option) \<Rightarrow> js_error + QdrantMCPServer" where
  "new_QdrantMCPServer env =
     (let qdrantUrl = (case or_str (env ''QDRANT_URL'') (Some ''http://localhost:6333'') of
                         None \<Rightarrow> [] | Some u \<Rightarrow> u);
          qdrantApiKey = env ''QDRANT_API_KEY'';
          dflt = env ''COLLECTION_NAME'';
          openaiApiKey = or_str (env ''OPENAPI_API_KEY'') (env ''OPENAI_API_KEY'')
      in if \<not> truthy_str openaiApiKey
         then Inl (Error ''OpenAI API key is required (OPENAPI_API_KEY or OPENAI_API_KEY)'')
         else Inr \<lparr>qdrantClient = \<lparr>url = qdrantUrl, apiKey = qdrantApiKey,
                                     cfg_defaultCollection = dflt\<rparr>,
                    defaultCollection = dflt\<rparr>)"

text \<open>\<^verbatim>\<open>process.env.OPENAI_EMBEDDING_MODEL || 'text-embedding-3-small'\<close>\<close>

definition embedding_model :: "'w runtime \<Rightarrow> string" where
  "embedding_model rt =
     (case or_str (process_env rt ''OPENAI_EMBEDDING_MODEL'') (Some ''text-embedding-3-small'') of
        None \<Rightarrow> [] | Some m \<Rightarrow> m)"

text \<open>\<^verbatim>\<open>embeddingResponse.data[0].embedding\<close>\<close>

fun first_embedding :: "real list list \<Rightarrow> js_error + real list" where
  "first_embedding [] =
     Inl (TypeError ''Cannot read properties of undefined (reading 'embedding')'')"
| "first_embedding (e # es) = Inr e"

subsection \<open>store\<close>

definition store_payload :: "string \<Rightarrow> string \<Rightarrow> json option \<Rightarrow> json" where
  "store_payload info stored_at meta =
     JObj ([(''information'', JStr info), (''stored_at'', JStr stored_at)]
           @ (case meta of
                None \<Rightarrow> []
              | Some m \<Rightarrow> if truthy (Some m) then [(''metadata'', m)] else []))"

text \<open>\<^verbatim>\<open>handleStore\<close> once \<^verbatim>\<open>collectionName\<close> is known to be a non-empty string.\<close>

definition store_in ::
  "QdrantMCPServer \<Rightarrow> 'w runtime \<Rightarrow> string \<Rightarrow> ('a store_args_scheme) \<Rightarrow> (CallToolResult, 'w) io" where
  "store_in srv rt collectionName args =
     bind_io (do_embeddings_create rt (embedding_model rt) (information args)) (\<lambda>data.
     bind_io (lift_result (first_embedding data)) (\<lambda>embedding.
     bind_io (createCollection (qdrantClient srv) rt collectionName (of_nat (length embedding))) (\<lambda>_.
     bind_io (do_date_now rt) (\<lambda>now.
     bind_io (do_date_now rt) (\<lambda>date.
     bind_io (upsertPoints (qdrantClient srv) rt collectionName
                [JObj [(''id'', JStr (string_of_nat now)),
                       (''vector'', JArr (map JNum embedding)),
                       (''payload'', store_payload (information args)
                                       (date_toISOString rt date) (metadata args))]]) (\<lambda>_.
     return_io [''Information stored successfully in collection '' @ [CHR 0x27] @ collectionName
                @ [CHR 0x27] @ '' with ID: '' @ string_of_nat now]))))))"

definition handleStore ::
  "QdrantMCPServer \<Rightarrow> 'w runtime \<Rightarrow> ('a store_args_scheme) \<Rightarrow> (CallToolResult, 'w) io" where
  "handleStore srv rt args =
     (case or_str (collection_name args) (defaultCollection srv) of
        None \<Rightarrow> throw_io (Error ''Collection name is required'')
      | Some collectionName \<Rightarrow>
          if collectionName = [] then throw_io (Error ''Collection name is required'')
          else store_in srv rt collectionName args)"

subsection \<open>find\<close>

text \<open>\<^verbatim>\<open>results.length === 0\<close> on whatever \<^verbatim>\<open>searchPoints\<close> returned.\<close>

fun length_is_zero :: "json \<Rightarrow> bool" where
  "length_is_zero (JArr xs) = (xs = [])"
| "length_is_zero (JStr s) = (s = [])"
| "length_is_zero (JObj kvs) = (map_of kvs ''length'' = Some (JNum 0))"
| "length_is_zero v = False"

text \<open>\<^verbatim>\<open>process.env.NODE_ENV === 'development' || process.env.DEBUG_QDRANT\<close>\<close>

definition debug_mode :: "'w runtime \<Rightarrow> bool" where
  "debug_mode rt =
     (process_env rt ''NODE_ENV'' = Some ''development'' \<or> truthy_str (process_env rt ''DEBUG_QDRANT''))"

text \<open>\<^verbatim>\<open>score.toFixed(4)\<close>, a method of numbers only.\<close>

fun score_toFixed4 :: "'w runtime \<Rightarrow> json \<Rightarrow> js_error + string" where
  "score_toFixed4 rt (JNum n) = Inr (number_toFixed rt 4 n)"
| "score_toFixed4 rt v = Inl (TypeError ''score.toFixed is not a function'')"

text \<open>The callback of \<^verbatim>\<open>results.map((result, index) => ...)\<close>.\<close>

definition format_result :: "'w runtime \<Rightarrow> json \<Rightarrow> nat \<Rightarrow> js_error + string" where
  "format_result rt result index =
     bind_result (get_prop ''score'' (Some result)) (\<lambda>sc.
     bind_result (get_prop ''payload'' (Some result)) (\<lambda>pl.
       let score = js_or_val sc (JNum 0);
           payload = js_or_val pl (JObj [])
       in bind_result (score_toFixed4 rt score) (\<lambda>fixed.
            Inr (''Result '' @ string_of_nat (index + 1) @ '' (Score: '' @ fixed @ ''):'' @ [CHR 0x0A]
                 @ (if debug_mode rt
                    then ''Debug - Payload keys: '' @ join '', '' (object_keys payload) @ [CHR 0x0A]
                    else [])
                 @ ''Detail: '' @ json_stringify rt payload @ [CHR 0x0A]))))"

text \<open>\<^verbatim>\<open>Array.prototype.map\<close> with a callback that may throw: the first throw ends it.\<close>

fun map_from :: "(json \<Rightarrow> nat \<Rightarrow> js_error + 'b) \<Rightarrow> nat \<Rightarrow> json list \<Rightarrow> js_error + 'b list" where
  "map_from f i [] = Inr []"
| "map_from f i (x # xs) =
     bind_result (f x i) (\<lambda>y. bind_result (map_from f (Suc i) xs) (\<lambda>ys. Inr (y # ys)))"

fun js_map :: "(json \<Rightarrow> nat \<Rightarrow> js_error + 'b) \<Rightarrow> json \<Rightarrow> js_error + 'b list" where
  "js_map f (JArr xs) = map_from f 0 xs"
| "js_map f JNull = Inl (TypeError ''Cannot read properties of null (reading 'map')'')"
| "js_map f v = Inl (TypeError ''results.map is not a function'')"

text \<open>What \<^verbatim>\<open>handleFind\<close> does with the value \<^verbatim>\<open>searchPoints\<close> returned.\<close>

definition find_response :: "'w runtime \<Rightarrow> string \<Rightarrow> json \<Rightarrow> js_error + CallToolResult" where
  "find_response rt q results =
     (if length_is_zero results
      then Inr [''No relevant information found for query: \"'' @ q @ ''\"'']
      else js_map (format_result rt) results)"

definition find_in ::
  "QdrantMCPServer \<Rightarrow> 'w runtime \<Rightarrow> string \<Rightarrow> ('a find_args_scheme) \<Rightarrow> (CallToolResult, 'w) io" where
  "find_in srv rt collectionName args =
     bind_io (do_embeddings_create rt (embedding_model rt) (query args)) (\<lambda>data.
     bind_io (lift_result (first_embedding data)) (\<lambda>queryVector.
     bind_io (searchPoints (qdrantClient srv) rt collectionName queryVector (Some 5)
                (map_option vector_name_string (vector_name args))) (\<lambda>results.
     lift_result (find_response rt (query args) results))))"

definition handleFind ::
  "QdrantMCPServer \<Rightarrow> 'w runtime \<Rightarrow> ('a find_args_scheme) \<Rightarrow> (CallToolResult, 'w) io" where
  "handleFind srv rt args =
     (case or_str (collection_name args) (defaultCollection srv) of
        None \<Rightarrow> throw_io (Error ''Collection name is required'')
      | Some collectionName \<Rightarrow>
          if collectionName = [] then throw_io (Error ''Collection name is required'')
          else find_in srv rt collectionName args)"

subsection \<open>debug\<close>

text \<open>\<^verbatim>\<open>JSON.stringify(v, null, 2)\<close> inside a template: \<^verbatim>\<open>undefined\<close> stays undefined.\<close>

fun stringify_indent :: "'w runtime \<Rightarrow> json option \<Rightarrow> string" where
  "stringify_indent rt None = ''undefined''"
| "stringify_indent rt (Some v) = json_stringify_indent rt v"

text \<open>\<^verbatim>\<open>${v?.length || 0}\<close>\<close>

fun length_or_zero_text :: "'w runtime \<Rightarrow> json option \<Rightarrow> string" where
  "length_or_zero_text rt (Some (JArr xs)) = string_of_nat (length xs)"
| "length_or_zero_text rt (Some (JStr s)) = string_of_nat (length s)"
| "length_or_zero_text rt (Some (JObj kvs)) =
     (if truthy (map_of kvs ''length'')
      then js_toString (number_toString rt) (map_of kvs ''length'')
      else ''0'')"
| "length_or_zero_text rt v = ''0''"

text \<open>The callback of \<^verbatim>\<open>sampleData.result.result.forEach((point, index) => ...)\<close>: the text it appends.\<close>

definition format_point :: "'w runtime \<Rightarrow> json \<Rightarrow> nat \<Rightarrow> js_error + string" where
  "format_point rt point index =
     bind_result (get_prop ''id'' (Some point)) (\<lambda>pid.
     bind_result (get_prop ''payload'' (Some point)) (\<lambda>pl.
       Inr ([CHR 0x0A] @ ''--- Point '' @ string_of_nat (index + 1) @ '' (ID: ''
            @ js_toString (number_toString rt) pid @ '') ---'' @ [CHR 0x0A]
            @ ''Payload keys: '' @ join '', '' (object_keys (js_or_val pl (JObj []))) @ [CHR 0x0A]
            @ ''Payload: '' @ stringify_indent rt pl @ [CHR 0x0A])))"

fun js_forEach :: "(json \<Rightarrow> nat \<Rightarrow> js_error + 'b) \<Rightarrow> json \<Rightarrow> js_error + 'b list" where
  "js_forEach f (JArr xs) = map_from f 0 xs"
| "js_forEach f v = Inl (TypeError ''sampleData.result.result.forEach is not a function'')"

text \<open>The text built from the two parsed responses.\<close>

definition debug_text :: "'w runtime \<Rightarrow> string \<Rightarrow> json \<Rightarrow> json \<Rightarrow> js_error + string" where
  "debug_text rt collectionName info sampleData =
     bind_result (get_prop ''result'' (Some info)) (\<lambda>info_result.
     bind_result (get_prop ''result'' (Some sampleData)) (\<lambda>sample_result.
       let points = opt_chain ''result'' sample_result;
           head = ''Collection Info for \"'' @ collectionName @ ''\":'' @ [CHR 0x0A]
                  @ stringify_indent rt info_result
                  @ [CHR 0x0A, CHR 0x0A] @ ''Sample Data (first '' @ length_or_zero_text rt points
                  @ '' points):'' @ [CHR 0x0A]
       in case points of
            None \<Rightarrow> Inr head
          | Some ps \<Rightarrow>
              if truthy (Some ps)
              then bind_result (js_forEach (format_point rt) ps) (\<lambda>parts.
                     Inr (head @ concat parts))
              else Inr head))"

text \<open>The body of the \<^verbatim>\<open>try\<close> block of \<^verbatim>\<open>handleDebug\<close>.\<close>

definition inspect :: "QdrantMCPServer \<Rightarrow> 'w runtime \<Rightarrow> string \<Rightarrow> (CallToolResult, 'w) io" where
  "inspect srv rt collectionName =
     bind_io (makeRequest (qdrantClient srv) rt (''/collections/'' @ collectionName)
                \<lparr>method = None, headers = None, body = None\<rparr>) (\<lambda>collectionInfo.
     bind_io (response_json collectionInfo) (\<lambda>info.
     bind_io (makeRequest (qdrantClient srv) rt (''/collections/'' @ collectionName @ ''/points/scroll'')
                \<lparr>method = Some ''POST'', headers = None,
                 body = Some (json_stringify rt
                          (JObj [(''limit'', JNum 5), (''with_payload'', JBool True),
                                 (''with_vector'', JBool False)]))\<rparr>) (\<lambda>sampleResponse.
     bind_io (response_json sampleResponse) (\<lambda>sampleData.
     bind_io (lift_result (debug_text rt collectionName info sampleData)) (\<lambda>debugInfo.
     return_io [debugInfo])))))"

text \<open>\<^verbatim>\<open>handleDebug\<close> once \<^verbatim>\<open>collectionName\<close> is known: the \<^verbatim>\<open>try\<close> and its \<^verbatim>\<open>catch\<close>.\<close>

definition debug_in :: "QdrantMCPServer \<Rightarrow> 'w runtime \<Rightarrow> string \<Rightarrow> (CallToolResult, 'w) io" where
  "debug_in srv rt collectionName =
     try_catch (inspect srv rt collectionName)
       (\<lambda>error. return_io [''Debug error: '' @ error_text error])"

definition handleDebug ::
  "QdrantMCPServer \<Rightarrow> 'w runtime \<Rightarrow> ('a collection_args_scheme) \<Rightarrow> (CallToolResult, 'w) io" where
  "handleDebug srv rt args =
     (case or_str (collection_name args) (defaultCollection srv) of
        None \<Rightarrow> throw_io (Error ''Collection name is required'')
      | Some collectionName \<Rightarrow>
          if collectionName = [] then throw_io (Error ''Collection name is required'')
          else debug_in srv rt collectionName)"

subsection \<open>The registered tool handlers\<close>

text \<open>
  Each callback given to \<^verbatim>\<open>registerTool\<close> rebuilds the arguments, calls the operation and
  turns whatever it throws into one text item.
\<close>

definition storeArgs :: "QdrantMCPServer \<Rightarrow> store_args \<Rightarrow> store_args" where
  "storeArgs srv args =
     \<lparr>collection_name = or_str (defaultCollection srv) (collection_name args),
      information = information args, metadata = metadata args\<rparr>"

definition findArgs :: "QdrantMCPServer \<Rightarrow> find_args \<Rightarrow> find_args" where
  "findArgs srv args =
     \<lparr>collection_name = or_str (defaultCollection srv) (collection_name args),
      query = query args, vector_name = vector_name args\<rparr>"

definition debugArgs :: "QdrantMCPServer \<Rightarrow> collection_args \<Rightarrow> collection_args" where
  "debugArgs srv args =
     \<lparr>collection_name = or_str (defaultCollection srv) (collection_name args)\<rparr>"

definition error_result :: "js_error \<Rightarrow> (CallToolResult, 'w) io" where
  "error_result error = return_io [''Error: '' @ error_text error]"

definition qdrant_store_tool :: "QdrantMCPServer \<Rightarrow> 'w runtime \<Rightarrow> store_args \<Rightarrow> (CallToolResult, 'w) io" where
  "qdrant_store_tool srv rt args = try_catch (handleStore srv rt (storeArgs srv args)) error_result"

definition qdrant_find_tool :: "QdrantMCPServer \<Rightarrow> 'w runtime \<Rightarrow> find_args \<Rightarrow> (CallToolResult, 'w) io" where
  "qdrant_find_tool srv rt args = try_catch (handleFind srv rt (findArgs srv args)) error_result"

definition qdrant_debug_tool :: "QdrantMCPServer \<Rightarrow> 'w runtime \<Rightarrow> collection_args \<Rightarrow> (CallToolResult, 'w) io" where
  "qdrant_debug_tool srv rt args = try_catch (handleDebug srv rt (debugArgs srv args)) error_result"

section \<open>A scripted runtime for the examples\<close>

text \<open>
  As the repository's tests replace \<^verbatim>\<open>fetch\<close> by a mock, the examples below run the
  operations against a world that answers each request with the next scripted response,
  embeds every text as the same vector and advances its clock by one per reading.
\<close>

record mock_world =
  responses :: "(js_error + Response) list"
  clock :: nat

definition mock_fetch :: "string \<Rightarrow> RequestInit \<Rightarrow> mock_world \<Rightarrow> (js_error + Response) \<times> mock_world" where
  "mock_fetch u init w =
     (case responses w of
        [] \<Rightarrow> (Inl (TypeError ''fetch failed''), w)
      | r # rs \<Rightarrow> (r, w\<lparr>responses := rs\<rparr>))"

text \<open>
  Rounding to \<open>d\<close> decimals, half away from zero, standing in for \<^verbatim>\<open>toFixed\<close>, and a
  compact rendering of a value, standing in for \<^verbatim>\<open>JSON.stringify\<close>.
\<close>

definition mock_toFixed :: "nat \<Rightarrow> real \<Rightarrow> string" where
  "mock_toFixed d x =
     (let n = nat \<lfloor>\<bar>x\<bar> * 10 ^ d + 1 / 2\<rfloor>;
          digits = string_of_nat n;
          padded = replicate (Suc d - length digits) CHR ''0'' @ digits
      in (if x < 0 then ''-'' else []) @ take (length padded - d) padded
         @ (if d = 0 then [] else ''.'' @ drop (length padded - d) padded))"

definition mock_number :: "real \<Rightarrow> string" where
  "mock_number x = (if x = of_int \<lfloor>x\<rfloor> then mock_toFixed 0 x else mock_toFixed 4 x)"

fun mock_stringify :: "json \<Rightarrow> string" where
  "mock_stringify JNull = ''null''"
| "mock_stringify (JBool b) = (if b then ''true'' else ''false'')"
| "mock_stringify (JNum n) = mock_number n"
| "mock_stringify (JStr s) = [CHR 0x22] @ s @ [CHR 0x22]"
| "mock_stringify (JArr xs) = ''['' @ join '','' (map mock_stringify xs) @ '']''"
| "mock_stringify (JObj kvs) =
     ''{'' @ join '','' (map (\<lambda>(k, v). [CHR 0x22] @ k @ [CHR 0x22] @ '':'' @ mock_stringify v) kvs) @ ''}''"

definition mock_runtime :: "(string \<Rightarrow> string option) \<Rightarrow> mock_world runtime" where
  "mock_runtime env =
     \<lparr>fetch = mock_fetch,
      embeddings_create = (\<lambda>model input w. (Inr [[1 / 2, 1 / 4, 0]], w)),
      date_now = (\<lambda>w. (clock w, w\<lparr>clock := Suc (clock w)\<rparr>)),
      process_env = env,
      json_stringify = mock_stringify,
      json_stringify_indent = mock_stringify,
      number_toString = mock_number,
      number_toFixed = mock_toFixed,
      date_toISOString = (\<lambda>t. ''T'' @ string_of_nat t @ ''Z'')\<rparr>"

definition mock_response :: "nat \<Rightarrow> string \<Rightarrow> js_error + json \<Rightarrow> Response" where
  "mock_response code reason parsed =
     \<lparr>ok = (200 \<le> code \<and> code < 300), status = code, statusText = reason, json_body = parsed\<rparr>"

definition mock_state :: "(js_error + Response) list \<Rightarrow> mock_world io_state" where
  "mock_state rs = \<lparr>world = \<lparr>responses = rs, clock = 1700000000000\<rparr>, trace = []\<rparr>"

definition test_config :: QdrantConfig where
  "test_config = \<lparr>url = ''http://localhost:6333'', apiKey = Some ''test-api-key'',
                   cfg_defaultCollection = None\<rparr>"

definition no_env :: "string \<Rightarrow> string option" where
  "no_env name = None"

definition test_server :: "string option \<Rightarrow> QdrantMCPServer" where
  "test_server dflt = \<lparr>qdrantClient = test_config, defaultCollection = dflt\<rparr>"

definition test_env :: "string \<Rightarrow> string option" where
  "test_env name =
     (if name = ''COLLECTION_NAME'' then Some ''long_term_memory''
      else if name = ''OPENAI_API_KEY'' then Some ''sk-test''
      else None)"

text \<open>Two error responses: one as Qdrant sends it, one as a gateway in front of it might.\<close>

definition named_vector_error :: Response where
  "named_vector_error =
     mock_response 400 ''Bad Request''
       (Inr (JObj [(''status'', JObj [(''error'',
                JStr ''Wrong input: Collection requires specified vector name in the request, available names: dense, sparse'')]),
             (''time'', JNum 0)]))"

definition gateway_error :: Response where
  "gateway_error =
     mock_response 422 ''Unprocessable Entity''
       (Inr (JObj [(''error'', JObj [(''message'', JStr ''vector dimension mismatch'')]),
             (''status'', JObj [(''error'', JStr ''Wrong input'')])]))"

text \<open>An answer of the store to a successful write, and arguments for a store call.\<close>

definition ok_response :: Response where
  "ok_response = mock_response 200 ''OK'' (Inr (JObj [(''result'', JObj [(''status'', JStr ''ok'')])]))"

definition store_demo_args :: store_args where
  "store_demo_args =
     \<lparr>collection_name = Some ''C'', information = ''X'',
      metadata = Some (JObj [(''topic'', JStr ''demo'')])\<rparr>"

text \<open>A search hit as in the repository's client test, and arguments for a find call.\<close>

definition one_hit :: json where
  "one_hit = JObj [(''id'', JStr ''1''), (''score'', JNum (19 / 20)),
                   (''payload'', JObj [(''information'', JStr ''test information'')])]"

definition find_demo_args :: "string \<Rightarrow> find_args" where
  "find_demo_args q = \<lparr>collection_name = Some ''test-collection'', query = q, vector_name = Some Dense\<rparr>"

section \<open>Basic facts about the operations\<close>

lemma string_of_nat_small: "n < 10 \<Longrightarrow> string_of_nat n = [digit_char n]"
  by (simp add: string_of_nat.simps)

lemma string_of_nat_big:
  "\<not> n < 10 \<Longrightarrow> string_of_nat n = string_of_nat (n div 10) @ [digit_char (n mod 10)]"
  by (subst string_of_nat.simps) simp

lemmas string_of_nat_eval = string_of_nat_small string_of_nat_big digit_char_def

lemma replicate_numeral: "replicate (numeral k) x = x # replicate (pred_numeral k) x"
  by (simp add: numeral_eq_Suc)

lemmas mock_eval = mock_toFixed_def mock_number_def Let_def string_of_nat_eval replicate_numeral
  mock_runtime_def mock_state_def mock_fetch_def mock_response_def test_config_def no_env_def

lemma bind_io_Inr: "m s = (Inr x, s') \<Longrightarrow> bind_io m f s = f x s'"
  by (simp add: bind_io_def)

lemma bind_io_Inl: "m s = (Inl e, s') \<Longrightarrow> bind_io m f s = (Inl e, s')"
  by (simp add: bind_io_def)

lemma bind_io_cases:
  "bind_io m f s = (r, s'') \<longleftrightarrow>
     (\<exists>e. m s = (Inl e, s'') \<and> r = Inl e) \<or> (\<exists>x s'. m s = (Inr x, s') \<and> f x s' = (r, s''))"
  by (auto simp: bind_io_def split: prod.splits sum.splits)

text \<open>Every call of \<^verbatim>\<open>makeRequest\<close> is exactly one \<^verbatim>\<open>fetch\<close>, answered by the world.\<close>

lemma makeRequest_eq:
  "makeRequest config rt endpoint options s =
     (fst (fetch rt (url config @ endpoint) (request_init config options) (world s)),
      s\<lparr>world := snd (fetch rt (url config @ endpoint) (request_init config options) (world s)),
        trace := trace s @ [Fetch (url config @ endpoint) (request_init config options)]\<rparr>)"
  by (simp add: makeRequest_def do_fetch_def split: prod.splits)

lemma makeRequest_trace:
  "makeRequest config rt endpoint options s = (r, s') \<Longrightarrow>
     trace s' = trace s @ [Fetch (url config @ endpoint) (request_init config options)]"
  by (auto simp: makeRequest_eq)

section \<open>Collection provisioning\<close>

text \<open>
  Claim C1.  Whatever the collection name and the dimensionality, when the remote store
  answers the creation request with a response that is ok or has status 409 (conflict),
  \<^verbatim>\<open>createCollection\<close> returns normally; for every other response it throws an error whose
  message ends with the response's status text.  Hence two calls in a row, each answered
  by ok or by 409, both return normally.
\<close>

theorem createCollection_conflict_is_success:
  assumes "makeRequest config rt (''/collections/'' @ name) (createCollection_init rt vectorSize) s
             = (Inr response, s')"
  shows "(ok response \<or> status response = 409 \<longrightarrow>
            createCollection config rt name vectorSize s = (Inr (), s'))
       \<and> (\<not> ok response \<and> status response \<noteq> 409 \<longrightarrow>
            createCollection config rt name vectorSize s
              = (Inl (Error (''Failed to create collection: '' @ statusText response)), s'))
       \<and> (\<forall>response2 s''.
            (ok response \<or> status response = 409)
            \<and> makeRequest config rt (''/collections/'' @ name) (createCollection_init rt vectorSize) s'
                 = (Inr response2, s'')
            \<and> (ok response2 \<or> status response2 = 409) \<longrightarrow>
            bind_io (createCollection config rt name vectorSize)
              (\<lambda>_. createCollection config rt name vectorSize) s = (Inr (), s''))"
  using assms
  by (auto simp: createCollection_def bind_io_def return_io_def throw_io_def)

text \<open>
  The store creates the collection on the first request (200) and reports a conflict on
  the second (409), as in the repository's client tests: both calls return.
\<close>

theorem createCollection_conflict_is_success_witness:
  "fst (makeRequest test_config (mock_runtime no_env) ''/collections/test-collection''
          (createCollection_init (mock_runtime no_env) 1536)
          (mock_state [Inr (mock_response 200 ''OK'' (Inr (JObj []))),
                       Inr (mock_response 409 ''Conflict'' (Inr (JObj [(''error'', JStr ''already exists'')])))]))
     = Inr (mock_response 200 ''OK'' (Inr (JObj [])))
   \<and> fst (bind_io (createCollection test_config (mock_runtime no_env) ''test-collection'' 1536)
            (\<lambda>_. createCollection test_config (mock_runtime no_env) ''test-collection'' 1536)
            (mock_state [Inr (mock_response 200 ''OK'' (Inr (JObj []))),
                         Inr (mock_response 409 ''Conflict'' (Inr (JObj [(''error'', JStr ''already exists'')])))]))
     = Inr ()"
proof -
  let ?rt = "mock_runtime no_env"
  let ?r1 = "mock_response 200 ''OK'' (Inr (JObj []))"
  let ?r2 = "mock_response 409 ''Conflict'' (Inr (JObj [(''error'', JStr ''already exists'')]))"
  let ?s0 = "mock_state [Inr ?r1, Inr ?r2]"
  let ?req = "makeRequest test_config ?rt (''/collections/'' @ ''test-collection'')
                (createCollection_init ?rt 1536)"
  obtain s1 where h1: "?req ?s0 = (Inr ?r1, s1)"
    and w1: "world s1 = \<lparr>responses = [Inr ?r2], clock = 1700000000000\<rparr>"
    by (simp add: makeRequest_eq mock_eval)
  obtain s2 where h2: "?req s1 = (Inr ?r2, s2)"
    by (simp add: makeRequest_eq w1 mock_runtime_def mock_fetch_def)
  have a1: "ok ?r1 \<or> status ?r1 = 409" and a2: "ok ?r2 \<or> status ?r2 = 409"
    by (simp_all add: mock_response_def)
  have "bind_io (createCollection test_config ?rt ''test-collection'' 1536)
          (\<lambda>_. createCollection test_config ?rt ''test-collection'' 1536) ?s0 = (Inr (), s2)"
    using createCollection_conflict_is_success [OF h1] h2 a1 a2 by blast
  then show ?thesis using h1 by simp
qed

section \<open>State and trace of the client operations\<close>

declare mock_stringify.simps [simp del]

lemma snd_return_io [simp]: "snd (return_io x s) = s"
  by (simp add: return_io_def)

lemma snd_throw_io [simp]: "snd (throw_io e s) = s"
  by (simp add: throw_io_def)

lemma snd_lift_result [simp]: "snd (lift_result r s) = s"
  by (simp add: lift_result_def)

lemma snd_response_json [simp]: "snd (response_json r s) = s"
  by (simp add: response_json_def)

lemma snd_bind_io:
  "snd (bind_io m f s) = (case m s of (Inl e, s') \<Rightarrow> s' | (Inr x, s') \<Rightarrow> snd (f x s'))"
  by (simp add: bind_io_def split: prod.splits sum.splits)

lemma snd_bind_io_pure: "(\<And>x s'. snd (f x s') = s') \<Longrightarrow> snd (bind_io m f s) = snd (m s)"
  by (simp add: snd_bind_io split: prod.splits sum.splits)

lemma snd_makeRequest:
  "snd (makeRequest config rt endpoint options s) =
     s\<lparr>world := snd (fetch rt (url config @ endpoint) (request_init config options) (world s)),
       trace := trace s @ [Fetch (url config @ endpoint) (request_init config options)]\<rparr>"
  by (simp add: makeRequest_eq)

lemma snd_searchPoints:
  "snd (searchPoints config rt c q limit vn s) =
     snd (makeRequest config rt (''/collections/'' @ c @ ''/points/search'')
            (searchPoints_init rt (search_requestBody q limit vn)) s)"
  unfolding searchPoints_def Let_def
  by (rule snd_bind_io_pure) (simp add: snd_bind_io_pure)

lemma searchPoints_trace:
  "trace (snd (searchPoints config rt c q limit vn s)) =
     trace s @ [Fetch (url config @ ''/collections/'' @ c @ ''/points/search'')
                  (request_init config (searchPoints_init rt (search_requestBody q limit vn)))]"
  by (simp add: snd_searchPoints snd_makeRequest)

lemma makeRequest_mock:
  "makeRequest config (mock_runtime env) endpoint options
     \<lparr>world = \<lparr>responses = r # rs, clock = t\<rparr>, trace = tr\<rparr>
   = (r, \<lparr>world = \<lparr>responses = rs, clock = t\<rparr>,
         trace = tr @ [Fetch (url config @ endpoint) (request_init config options)]\<rparr>)"
  by (simp add: makeRequest_eq mock_runtime_def mock_fetch_def)

section \<open>Resolving the collection name\<close>

text \<open>
  Claim C2.  In \<^verbatim>\<open>handleStore\<close>, \<^verbatim>\<open>handleFind\<close> and \<^verbatim>\<open>handleDebug\<close> the collection used is the
  explicit \<^verbatim>\<open>collection_name\<close> argument when it is a non-empty string, and otherwise the
  configured default when that is a non-empty string.  When neither is, the operation
  throws an error with the text \<^verbatim>\<open>Collection name is required\<close> and leaves the state as it
  was: no request has gone to the embedding provider or to the vector store.
\<close>

theorem collection_name_required_before_network:
  fixes sa :: store_args and fa :: find_args and da :: collection_args
  shows
   "(\<forall>c. collection_name sa = Some c \<and> c \<noteq> [] \<longrightarrow> handleStore srv rt sa = store_in srv rt c sa)
  \<and> (\<forall>d. \<not> truthy_str (collection_name sa) \<and> defaultCollection srv = Some d \<and> d \<noteq> [] \<longrightarrow>
         handleStore srv rt sa = store_in srv rt d sa)
  \<and> (\<not> truthy_str (collection_name sa) \<and> \<not> truthy_str (defaultCollection srv) \<longrightarrow>
         handleStore srv rt sa s = (Inl (Error ''Collection name is required''), s))
  \<and> (\<forall>c. collection_name fa = Some c \<and> c \<noteq> [] \<longrightarrow> handleFind srv rt fa = find_in srv rt c fa)
  \<and> (\<forall>d. \<not> truthy_str (collection_name fa) \<and> defaultCollection srv = Some d \<and> d \<noteq> [] \<longrightarrow>
         handleFind srv rt fa = find_in srv rt d fa)
  \<and> (\<not> truthy_str (collection_name fa) \<and> \<not> truthy_str (defaultCollection srv) \<longrightarrow>
         handleFind srv rt fa s = (Inl (Error ''Collection name is required''), s))
  \<and> (\<forall>c. collection_name da = Some c \<and> c \<noteq> [] \<longrightarrow> handleDebug srv rt da = debug_in srv rt c)
  \<and> (\<forall>d. \<not> truthy_str (collection_name da) \<and> defaultCollection srv = Some d \<and> d \<noteq> [] \<longrightarrow>
         handleDebug srv rt da = debug_in srv rt d)
  \<and> (\<not> truthy_str (collection_name da) \<and> \<not> truthy_str (defaultCollection srv) \<longrightarrow>
         handleDebug srv rt da s = (Inl (Error ''Collection name is required''), s))"
  by (cases "collection_name sa"; cases "collection_name fa"; cases "collection_name da";
      cases "defaultCollection srv")
     (simp_all add: handleStore_def handleFind_def handleDebug_def or_str_def throw_io_def)

theorem collection_name_required_before_network_witness:
  "handleStore (test_server None) (mock_runtime no_env)
     \<lparr>collection_name = None, information = ''X'', metadata = None\<rparr> (mock_state [])
     = (Inl (Error ''Collection name is required''), mock_state [])
   \<and> handleFind (test_server None) (mock_runtime no_env)
     \<lparr>collection_name = Some [], query = ''X'', vector_name = Some Dense\<rparr> (mock_state [])
     = (Inl (Error ''Collection name is required''), mock_state [])
   \<and> handleDebug (test_server (Some [])) (mock_runtime no_env)
     \<lparr>collection_name = None\<rparr> (mock_state [])
     = (Inl (Error ''Collection name is required''), mock_state [])
   \<and> trace (mock_state []) = []
   \<and> handleStore (test_server (Some ''memory'')) (mock_runtime no_env)
        \<lparr>collection_name = Some ''C'', information = ''X'', metadata = None\<rparr>
      = store_in (test_server (Some ''memory'')) (mock_runtime no_env) ''C''
          \<lparr>collection_name = Some ''C'', information = ''X'', metadata = None\<rparr>
   \<and> handleFind (test_server (Some ''memory'')) (mock_runtime no_env)
        \<lparr>collection_name = None, query = ''X'', vector_name = None\<rparr>
      = find_in (test_server (Some ''memory'')) (mock_runtime no_env) ''memory''
          \<lparr>collection_name = None, query = ''X'', vector_name = None\<rparr>"
  using collection_name_required_before_network
          [of "\<lparr>collection_name = None, information = ''X'', metadata = None\<rparr>"
              "test_server None" "mock_runtime no_env"
              "mock_state []"
              "\<lparr>collection_name = Some [], query = ''X'', vector_name = Some Dense\<rparr>"
              "\<lparr>collection_name = None\<rparr>"]
        collection_name_required_before_network
          [of "\<lparr>collection_name = None, information = ''X'', metadata = None\<rparr>"
              "test_server (Some [])" "mock_runtime no_env"
              "mock_state []"
              "\<lparr>collection_name = Some [], query = ''X'', vector_name = Some Dense\<rparr>"
              "\<lparr>collection_name = None\<rparr>"]
        collection_name_required_before_network
          [of "\<lparr>collection_name = Some ''C'', information = ''X'', metadata = None\<rparr>"
              "test_server (Some ''memory'')" "mock_runtime no_env"
              "mock_state []"
              "\<lparr>collection_name = None, query = ''X'', vector_name = None\<rparr>"
              "\<lparr>collection_name = None\<rparr>"]
  by (simp add: test_server_def mock_state_def)

text \<open>
  Claim C10.  When the environment names a default collection at startup, each registered
  tool handler passes that default to its operation as \<^verbatim>\<open>collection_name\<close>, whatever
  \<^verbatim>\<open>collection_name\<close> the caller's arguments carry, so the operation runs on the default.
\<close>

theorem configured_default_takes_precedence:
  fixes sa :: store_args and fa :: find_args and da :: collection_args
  assumes "new_QdrantMCPServer env = Inr srv" and "env ''COLLECTION_NAME'' = Some d" and "d \<noteq> []"
  shows "collection_name (storeArgs srv sa) = Some d
       \<and> collection_name (findArgs srv fa) = Some d
       \<and> collection_name (debugArgs srv da) = Some d
       \<and> qdrant_store_tool srv rt sa = try_catch (store_in srv rt d (storeArgs srv sa)) error_result
       \<and> qdrant_find_tool srv rt fa = try_catch (find_in srv rt d (findArgs srv fa)) error_result
       \<and> qdrant_debug_tool srv rt da = try_catch (debug_in srv rt d) error_result"
proof -
  from assms have dflt: "defaultCollection srv = Some d"
    by (auto simp: new_QdrantMCPServer_def Let_def split: if_splits)
  with \<open>d \<noteq> []\<close> show ?thesis
    by (simp add: storeArgs_def findArgs_def debugArgs_def or_str_def
        qdrant_store_tool_def qdrant_find_tool_def qdrant_debug_tool_def
        handleStore_def handleFind_def handleDebug_def)
qed

theorem configured_default_takes_precedence_witness:
  "new_QdrantMCPServer test_env
     = Inr \<lparr>qdrantClient = \<lparr>url = ''http://localhost:6333'', apiKey = None,
                             cfg_defaultCollection = Some ''long_term_memory''\<rparr>,
            defaultCollection = Some ''long_term_memory''\<rparr>
   \<and> test_env ''COLLECTION_NAME'' = Some ''long_term_memory''
   \<and> collection_name
        (storeArgs \<lparr>qdrantClient = \<lparr>url = ''http://localhost:6333'', apiKey = None,
                                     cfg_defaultCollection = Some ''long_term_memory''\<rparr>,
                    defaultCollection = Some ''long_term_memory''\<rparr>
           \<lparr>collection_name = Some ''other'', information = ''X'', metadata = None\<rparr>)
      = Some ''long_term_memory''"
proof -
  let ?srv = "\<lparr>qdrantClient = \<lparr>url = ''http://localhost:6333'', apiKey = None,
                                  cfg_defaultCollection = Some ''long_term_memory''\<rparr>,
                 defaultCollection = Some ''long_term_memory''\<rparr>"
  have h1: "new_QdrantMCPServer test_env = Inr ?srv"
    by (simp add: new_QdrantMCPServer_def test_env_def or_str_def Let_def)
  have h2: "test_env ''COLLECTION_NAME'' = Some ''long_term_memory''"
    by (simp add: test_env_def)
  have h3: "''long_term_memory'' \<noteq> []" by simp
  from configured_default_takes_precedence [OF h1 h2 h3] h1 h2 show ?thesis by blast
qed

section \<open>Searching\<close>

text \<open>
  Claim C5.  When the search request is answered by an ok response whose parsed body is
  an object in which \<^verbatim>\<open>result\<close> is absent or is the empty array, \<^verbatim>\<open>searchPoints\<close> returns
  the empty array and throws nothing.
\<close>

theorem searchPoints_absent_result_is_empty:
  assumes "makeRequest config rt (''/collections/'' @ c @ ''/points/search'')
             (searchPoints_init rt (search_requestBody q limit vn)) s = (Inr response, s')"
      and "ok response"
      and "json_body response = Inr (JObj kvs)"
      and "map_of kvs ''result'' = None \<or> map_of kvs ''result'' = Some (JArr [])"
  shows "searchPoints config rt c q limit vn s = (Inr (JArr []), s')"
  using assms
  by (auto simp: searchPoints_def Let_def bind_io_def response_json_def lift_result_def return_io_def)

theorem searchPoints_absent_result_is_empty_witness:
  "fst (makeRequest test_config (mock_runtime no_env) ''/collections/test-collection/points/search''
          (searchPoints_init (mock_runtime no_env) (search_requestBody [1 / 10, 1 / 5, 3 / 10] None None))
          (mock_state [Inr (mock_response 200 ''OK'' (Inr (JObj [])))]))
     = Inr (mock_response 200 ''OK'' (Inr (JObj [])))
   \<and> ok (mock_response 200 ''OK'' (Inr (JObj [])))
   \<and> fst (searchPoints test_config (mock_runtime no_env) ''test-collection'' [1 / 10, 1 / 5, 3 / 10]
            None None (mock_state [Inr (mock_response 200 ''OK'' (Inr (JObj [])))]))
     = Inr (JArr [])"
proof -
  let ?rt = "mock_runtime no_env"
  let ?r = "mock_response 200 ''OK'' (Inr (JObj []))"
  obtain s1 where h1: "makeRequest test_config ?rt (''/collections/'' @ ''test-collection'' @ ''/points/search'')
      (searchPoints_init ?rt (search_requestBody [1 / 10, 1 / 5, 3 / 10] None None))
      (mock_state [Inr ?r]) = (Inr ?r, s1)"
    by (simp add: mock_state_def makeRequest_mock)
  have h2: "ok ?r" and h3: "json_body ?r = Inr (JObj [])"
    by (simp_all add: mock_response_def)
  have h4: "map_of [] ''result'' = None \<or> map_of [] ''result'' = Some (JArr [])"
    by simp
  from searchPoints_absent_result_is_empty [OF h1 h2 h3 h4] h1 h2 show ?thesis by simp
qed

text \<open>
  Claim C9.  \<^verbatim>\<open>searchPoints\<close> issues exactly one request, a POST to
  \<^verbatim>\<open>/collections/<name>/points/search\<close>.  Without a vector name the \<^verbatim>\<open>vector\<close> field of
  its body is the plain query vector; with a (non-empty) vector name it is the object
  \<^verbatim>\<open>{name, vector}\<close>.  The endpoint is the same in both cases.
\<close>

theorem searchPoints_request_shape:
  "\<exists>r s'.
     searchPoints config rt c q limit vn s = (r, s')
   \<and> (vn = None \<longrightarrow>
        trace s' = trace s @
          [Fetch (url config @ ''/collections/'' @ c @ ''/points/search'')
             (request_init config
                \<lparr>method = Some ''POST'', headers = None,
                 body = Some (json_stringify rt
                   (JObj [(''limit'', JNum (case limit of None \<Rightarrow> 5 | Some l \<Rightarrow> l)),
                          (''with_payload'', JBool True),
                          (''vector'', JArr (map JNum q))]))\<rparr>)])
   \<and> (\<forall>n. vn = Some n \<and> n \<noteq> [] \<longrightarrow>
        trace s' = trace s @
          [Fetch (url config @ ''/collections/'' @ c @ ''/points/search'')
             (request_init config
                \<lparr>method = Some ''POST'', headers = None,
                 body = Some (json_stringify rt
                   (JObj [(''limit'', JNum (case limit of None \<Rightarrow> 5 | Some l \<Rightarrow> l)),
                          (''with_payload'', JBool True),
                          (''vector'', JObj [(''name'', JStr n),
                                             (''vector'', JArr (map JNum q))])]))\<rparr>)])"
  by (intro exI [of _ "fst (searchPoints config rt c q limit vn s)"]
            exI [of _ "snd (searchPoints config rt c q limit vn s)"])
     (simp add: searchPoints_trace searchPoints_init_def search_requestBody_def)

theorem searchPoints_request_shape_witness:
  "trace (snd (searchPoints test_config (mock_runtime no_env) ''test-collection'' [1 / 10, 1 / 5, 3 / 10]
                 None None (mock_state [])))
     = [Fetch ''http://localhost:6333/collections/test-collection/points/search''
          \<lparr>method = Some ''POST'',
           headers = Some [(''Content-Type'', ''application/json''), (''api-key'', ''test-api-key'')],
           body = Some (mock_stringify
                    (JObj [(''limit'', JNum 5), (''with_payload'', JBool True),
                           (''vector'', JArr [JNum (1 / 10), JNum (1 / 5), JNum (3 / 10)])]))\<rparr>]
   \<and> trace (snd (searchPoints test_config (mock_runtime no_env) ''test-collection'' [1 / 10, 1 / 5, 3 / 10]
                 (Some 5) (Some ''dense'') (mock_state [])))
     = [Fetch ''http://localhost:6333/collections/test-collection/points/search''
          \<lparr>method = Some ''POST'',
           headers = Some [(''Content-Type'', ''application/json''), (''api-key'', ''test-api-key'')],
           body = Some (mock_stringify
                    (JObj [(''limit'', JNum 5), (''with_payload'', JBool True),
                           (''vector'', JObj [(''name'', JStr ''dense''),
                              (''vector'', JArr [JNum (1 / 10), JNum (1 / 5), JNum (3 / 10)])])]))\<rparr>]"
proof -
  let ?rt = "mock_runtime no_env"
  let ?q = "[1 / 10, 1 / 5, 3 / 10] :: real list"
  have init: "\<And>b. request_init test_config \<lparr>method = Some ''POST'', headers = None, body = b\<rparr>
      = \<lparr>method = Some ''POST'',
         headers = Some [(''Content-Type'', ''application/json''), (''api-key'', ''test-api-key'')],
         body = b\<rparr>"
    by (simp add: request_init_def test_config_def)
  have rt: "json_stringify ?rt = mock_stringify"
    by (simp add: mock_runtime_def)
  have u: "url test_config = ''http://localhost:6333''"
    by (simp add: test_config_def)
  from searchPoints_request_shape [of test_config ?rt "''test-collection''" ?q None None "mock_state []"]
  have plain: "trace (snd (searchPoints test_config ?rt ''test-collection'' ?q None None (mock_state [])))
     = [Fetch ''http://localhost:6333/collections/test-collection/points/search''
          \<lparr>method = Some ''POST'',
           headers = Some [(''Content-Type'', ''application/json''), (''api-key'', ''test-api-key'')],
           body = Some (mock_stringify
                    (JObj [(''limit'', JNum 5), (''with_payload'', JBool True),
                           (''vector'', JArr [JNum (1 / 10), JNum (1 / 5), JNum (3 / 10)])]))\<rparr>]"
    by (auto simp: init rt u mock_state_def)
  from searchPoints_request_shape [of test_config ?rt "''test-collection''" ?q "Some 5" "Some ''dense''" "mock_state []"]
  have named: "trace (snd (searchPoints test_config ?rt ''test-collection'' ?q (Some 5) (Some ''dense'') (mock_state [])))
     = [Fetch ''http://localhost:6333/collections/test-collection/points/search''
          \<lparr>method = Some ''POST'',
           headers = Some [(''Content-Type'', ''application/json''), (''api-key'', ''test-api-key'')],
           body = Some (mock_stringify
                    (JObj [(''limit'', JNum 5), (''with_payload'', JBool True),
                           (''vector'', JObj [(''name'', JStr ''dense''),
                              (''vector'', JArr [JNum (1 / 10), JNum (1 / 5), JNum (3 / 10)])])]))\<rparr>]"
    by (auto simp: init rt u mock_state_def)
  from plain named show ?thesis by simp
qed

section \<open>Errors of the vector store\<close>

lemma searchPoints_not_ok:
  assumes "makeRequest config rt (''/collections/'' @ c @ ''/points/search'')
             (searchPoints_init rt (search_requestBody q limit vn)) s = (Inr response, s')"
      and "\<not> ok response"
  shows "searchPoints config rt c q limit vn s =
           (case with_hint rt (errorDetails_of rt response) vn of
              Inl e \<Rightarrow> (Inl e, s')
            | Inr d \<Rightarrow>
                (Inl (Error (''Failed to search points in collection '' @ [CHR 0x27] @ c @ [CHR 0x27]
                   @ '': '' @ json_toString (number_toString rt) d
                   @ ''. Request: '' @ json_stringify rt (search_requestBody q limit vn))), s'))"
  using assms
  by (simp add: searchPoints_def Let_def bind_io_def lift_result_def throw_io_def split: sum.splits)

lemma hint_names: "sublist ''\"dense\"'' vector_name_hint \<and> sublist ''\"sparse\"'' vector_name_hint"
  unfolding vector_name_hint_def by code_simp

lemma upsertPoints_not_ok:
  assumes "makeRequest config rt (''/collections/'' @ c @ ''/points'') (upsertPoints_init rt points) s
             = (Inr response, s')"
      and "\<not> ok response"
  shows "upsertPoints config rt c points s =
           (Inl (Error (''Failed to upsert points in collection '' @ [CHR 0x27] @ c @ [CHR 0x27]
              @ '': '' @ json_toString (number_toString rt) (errorDetails_of rt response))), s')"
  using assms by (simp add: upsertPoints_def bind_io_def throw_io_def)

lemma errorDetails_message:
  assumes "json_body response = Inr (JObj kvs)"
      and "opt_chain ''message'' (map_of kvs ''error'') = Some (JStr m)" and "m \<noteq> []"
  shows "errorDetails_of rt response = JStr m"
  using assms by (simp add: errorDetails_of_def errorDetails_try_def bind_result_def)

lemma errorDetails_status_error:
  assumes "json_body response = Inr (JObj kvs)"
      and "\<not> truthy (opt_chain ''message'' (map_of kvs ''error''))"
      and "opt_chain ''error'' (map_of kvs ''status'') = Some (JStr m)" and "m \<noteq> []"
  shows "errorDetails_of rt response = JStr m"
  using assms
  by (cases "opt_chain ''message'' (map_of kvs ''error'')")
     (simp_all add: errorDetails_of_def errorDetails_try_def bind_result_def)

lemma errorDetails_raw_body:
  assumes "json_body response = Inr (JObj kvs)"
      and "\<not> truthy (opt_chain ''message'' (map_of kvs ''error''))"
      and "\<not> truthy (opt_chain ''error'' (map_of kvs ''status''))"
  shows "errorDetails_of rt response = JStr (json_stringify rt (JObj kvs))"
  using assms
  by (cases "opt_chain ''message'' (map_of kvs ''error'')";
      cases "opt_chain ''error'' (map_of kvs ''status'')")
     (simp_all add: errorDetails_of_def errorDetails_try_def bind_result_def)

lemma errorDetails_unparsable:
  assumes "json_body response = Inl e"
  shows "errorDetails_of rt response = JStr (statusText response)"
  using assms by (simp add: errorDetails_of_def errorDetails_try_def bind_result_def)

lemma searchPoints_not_ok_text:
  assumes "makeRequest config rt (''/collections/'' @ c @ ''/points/search'')
             (searchPoints_init rt (search_requestBody q limit vn)) s = (Inr response, s')"
      and "\<not> ok response"
      and "errorDetails_of rt response = JStr d"
  shows "searchPoints config rt c q limit vn s =
           (Inl (Error (''Failed to search points in collection '' @ [CHR 0x27] @ c @ [CHR 0x27]
              @ '': '' @ d
              @ (if sublist ''requires specified vector name'' d \<and> \<not> truthy_str vn
                 then vector_name_hint else [])
              @ ''. Request: '' @ json_stringify rt (search_requestBody q limit vn))), s')"
  using searchPoints_not_ok [OF assms(1,2)] assms(3)
  by (simp add: with_hint_def bind_result_def)

text \<open>
  Claim C7.  When a search is answered by a response that is not ok and the extracted
  error text contains \<^verbatim>\<open>requires specified vector name\<close>, a call without a vector name
  throws an error whose message carries that text followed by the hint, which names
  \<^verbatim>\<open>"dense"\<close> and \<^verbatim>\<open>"sparse"\<close>.  With a vector name, or with any other error text, the
  message carries the text alone.
\<close>

theorem searchPoints_named_vector_hint:
  assumes "makeRequest config rt (''/collections/'' @ c @ ''/points/search'')
             (searchPoints_init rt (search_requestBody q limit vn)) s = (Inr response, s')"
      and "\<not> ok response"
      and "errorDetails_of rt response = JStr details"
  shows "(sublist ''requires specified vector name'' details \<and> \<not> truthy_str vn \<longrightarrow>
            searchPoints config rt c q limit vn s =
              (Inl (Error (''Failed to search points in collection '' @ [CHR 0x27] @ c @ [CHR 0x27]
                 @ '': '' @ details @ vector_name_hint
                 @ ''. Request: '' @ json_stringify rt (search_requestBody q limit vn))), s'))
       \<and> (truthy_str vn \<or> \<not> sublist ''requires specified vector name'' details \<longrightarrow>
            searchPoints config rt c q limit vn s =
              (Inl (Error (''Failed to search points in collection '' @ [CHR 0x27] @ c @ [CHR 0x27]
                 @ '': '' @ details
                 @ ''. Request: '' @ json_stringify rt (search_requestBody q limit vn))), s'))
       \<and> sublist ''\"dense\"'' vector_name_hint \<and> sublist ''\"sparse\"'' vector_name_hint"
  using searchPoints_not_ok [OF assms(1,2)] assms(3) hint_names
  by (auto simp: with_hint_def bind_result_def)

theorem searchPoints_named_vector_hint_witness:
  "fst (searchPoints test_config (mock_runtime no_env) ''test-collection'' [1 / 10, 1 / 5, 3 / 10]
          (Some 5) None (mock_state [Inr named_vector_error]))
     = Inl (Error (''Failed to search points in collection 'test-collection': ''
          @ ''Wrong input: Collection requires specified vector name in the request, available names: dense, sparse''
          @ ''. Hint: Try setting a vector name (e.g., \"dense\" or \"sparse\")''
          @ ''. Request: '' @ mock_stringify (search_requestBody [1 / 10, 1 / 5, 3 / 10] (Some 5) None)))
   \<and> fst (searchPoints test_config (mock_runtime no_env) ''test-collection'' [1 / 10, 1 / 5, 3 / 10]
          (Some 5) (Some ''dense'') (mock_state [Inr named_vector_error]))
     = Inl (Error (''Failed to search points in collection 'test-collection': ''
          @ ''Wrong input: Collection requires specified vector name in the request, available names: dense, sparse''
          @ ''. Request: '' @ mock_stringify (search_requestBody [1 / 10, 1 / 5, 3 / 10] (Some 5) (Some ''dense''))))"
proof -
  let ?rt = "mock_runtime no_env"
  let ?q = "[1 / 10, 1 / 5, 3 / 10] :: real list"
  let ?d = "''Wrong input: Collection requires specified vector name in the request, available names: dense, sparse''"
  have rt: "json_stringify ?rt = mock_stringify"
    by (simp add: mock_runtime_def)
  have h2: "\<not> ok named_vector_error"
    by (simp add: named_vector_error_def mock_response_def)
  have h3: "errorDetails_of ?rt named_vector_error = JStr ?d"
    by (simp add: named_vector_error_def mock_response_def errorDetails_of_def
        errorDetails_try_def bind_result_def)
  have h4: "sublist ''requires specified vector name'' ?d"
    by code_simp
  obtain s1 where a1: "makeRequest test_config ?rt (''/collections/'' @ ''test-collection'' @ ''/points/search'')
      (searchPoints_init ?rt (search_requestBody ?q (Some 5) None))
      (mock_state [Inr named_vector_error]) = (Inr named_vector_error, s1)"
    by (simp add: mock_state_def makeRequest_mock)
  obtain s2 where a2: "makeRequest test_config ?rt (''/collections/'' @ ''test-collection'' @ ''/points/search'')
      (searchPoints_init ?rt (search_requestBody ?q (Some 5) (Some ''dense'')))
      (mock_state [Inr named_vector_error]) = (Inr named_vector_error, s2)"
    by (simp add: mock_state_def makeRequest_mock)
  have n1: "\<not> truthy_str None" and n2: "truthy_str (Some ''dense'')"
    by simp_all
  from searchPoints_named_vector_hint [OF a1 h2 h3] h4 n1
  have r1: "searchPoints test_config ?rt ''test-collection'' ?q (Some 5) None (mock_state [Inr named_vector_error])
    = (Inl (Error (''Failed to search points in collection '' @ [CHR 0x27] @ ''test-collection'' @ [CHR 0x27]
                 @ '': '' @ ?d @ vector_name_hint
                 @ ''. Request: '' @ json_stringify ?rt (search_requestBody ?q (Some 5) None))), s1)"
    by blast
  from searchPoints_named_vector_hint [OF a2 h2 h3] n2
  have r2: "searchPoints test_config ?rt ''test-collection'' ?q (Some 5) (Some ''dense'') (mock_state [Inr named_vector_error])
    = (Inl (Error (''Failed to search points in collection '' @ [CHR 0x27] @ ''test-collection'' @ [CHR 0x27]
                 @ '': '' @ ?d
                 @ ''. Request: '' @ json_stringify ?rt (search_requestBody ?q (Some 5) (Some ''dense'')))), s2)"
    by blast
  from r1 r2 show ?thesis
    by (simp add: rt vector_name_hint_def)
qed

text \<open>
  Claim C6.  For a response that is not ok, the error text is taken, in this order, from
  \<^verbatim>\<open>error.message\<close> of the parsed body when that holds a non-empty string, else from
  \<^verbatim>\<open>status.error\<close> when that does, else it is the serialized body; and when the body does
  not parse it is the response's status text.  "Present" is JavaScript truthiness here: an
  empty, null, zero or false field counts as absent.  \<^verbatim>\<open>upsertPoints\<close> and \<^verbatim>\<open>searchPoints\<close>
  throw an error whose message carries that text.
\<close>

theorem error_message_priority:
  assumes "\<not> ok response"
  shows "(\<forall>kvs m. json_body response = Inr (JObj kvs)
            \<and> opt_chain ''message'' (map_of kvs ''error'') = Some (JStr m) \<and> m \<noteq> [] \<longrightarrow>
            errorDetails_of rt response = JStr m)
       \<and> (\<forall>kvs m. json_body response = Inr (JObj kvs)
            \<and> \<not> truthy (opt_chain ''message'' (map_of kvs ''error''))
            \<and> opt_chain ''error'' (map_of kvs ''status'') = Some (JStr m) \<and> m \<noteq> [] \<longrightarrow>
            errorDetails_of rt response = JStr m)
       \<and> (\<forall>kvs. json_body response = Inr (JObj kvs)
            \<and> \<not> truthy (opt_chain ''message'' (map_of kvs ''error''))
            \<and> \<not> truthy (opt_chain ''error'' (map_of kvs ''status'')) \<longrightarrow>
            errorDetails_of rt response = JStr (json_stringify rt (JObj kvs)))
       \<and> (\<forall>e. json_body response = Inl e \<longrightarrow>
            errorDetails_of rt response = JStr (statusText response))
       \<and> (\<forall>s s' details.
            makeRequest config rt (''/collections/'' @ c @ ''/points'') (upsertPoints_init rt points) s
              = (Inr response, s')
            \<and> errorDetails_of rt response = JStr details \<longrightarrow>
            upsertPoints config rt c points s =
              (Inl (Error (''Failed to upsert points in collection '' @ [CHR 0x27] @ c @ [CHR 0x27]
                 @ '': '' @ details)), s'))
       \<and> (\<forall>s s' details.
            makeRequest config rt (''/collections/'' @ c @ ''/points/search'')
              (searchPoints_init rt (search_requestBody q limit vn)) s = (Inr response, s')
            \<and> errorDetails_of rt response = JStr details \<longrightarrow>
            searchPoints config rt c q limit vn s =
              (Inl (Error (''Failed to search points in collection '' @ [CHR 0x27] @ c @ [CHR 0x27]
                 @ '': '' @ details
                 @ (if sublist ''requires specified vector name'' details \<and> \<not> truthy_str vn
                    then vector_name_hint else [])
                 @ ''. Request: '' @ json_stringify rt (search_requestBody q limit vn))), s'))"
proof (intro conjI allI impI)
  fix kvs m
  assume "json_body response = Inr (JObj kvs)
            \<and> opt_chain ''message'' (map_of kvs ''error'') = Some (JStr m) \<and> m \<noteq> []"
  then show "errorDetails_of rt response = JStr m"
    by (simp add: errorDetails_message)
next
  fix kvs m
  assume "json_body response = Inr (JObj kvs)
            \<and> \<not> truthy (opt_chain ''message'' (map_of kvs ''error''))
            \<and> opt_chain ''error'' (map_of kvs ''status'') = Some (JStr m) \<and> m \<noteq> []"
  then show "errorDetails_of rt response = JStr m"
    by (simp add: errorDetails_status_error)
next
  fix kvs
  assume "json_body response = Inr (JObj kvs)
            \<and> \<not> truthy (opt_chain ''message'' (map_of kvs ''error''))
            \<and> \<not> truthy (opt_chain ''error'' (map_of kvs ''status''))"
  then show "errorDetails_of rt response = JStr (json_stringify rt (JObj kvs))"
    by (simp add: errorDetails_raw_body)
next
  fix e
  assume "json_body response = Inl e"
  then show "errorDetails_of rt response = JStr (statusText response)"
    by (rule errorDetails_unparsable)
next
  fix s s' details
  assume "makeRequest config rt (''/collections/'' @ c @ ''/points'') (upsertPoints_init rt points) s
              = (Inr response, s')
            \<and> errorDetails_of rt response = JStr details"
  then show "upsertPoints config rt c points s =
              (Inl (Error (''Failed to upsert points in collection '' @ [CHR 0x27] @ c @ [CHR 0x27]
                 @ '': '' @ details)), s')"
    using upsertPoints_not_ok [of config rt c points s response s'] assms by simp
next
  fix s s' details
  assume "makeRequest config rt (''/collections/'' @ c @ ''/points/search'')
              (searchPoints_init rt (search_requestBody q limit vn)) s = (Inr response, s')
            \<and> errorDetails_of rt response = JStr details"
  then show "searchPoints config rt c q limit vn s =
              (Inl (Error (''Failed to search points in collection '' @ [CHR 0x27] @ c @ [CHR 0x27]
                 @ '': '' @ details
                 @ (if sublist ''requires specified vector name'' details \<and> \<not> truthy_str vn
                    then vector_name_hint else [])
                 @ ''. Request: '' @ json_stringify rt (search_requestBody q limit vn))), s')"
    using searchPoints_not_ok_text [of config rt c q limit vn s response s' details] assms by simp
qed

theorem error_message_priority_witness:
  "errorDetails_of (mock_runtime no_env) gateway_error = JStr ''vector dimension mismatch''
   \<and> fst (upsertPoints test_config (mock_runtime no_env) ''test-collection'' [] (mock_state [Inr gateway_error]))
       = Inl (Error ''Failed to upsert points in collection 'test-collection': vector dimension mismatch'')
   \<and> errorDetails_of (mock_runtime no_env) named_vector_error
       = JStr ''Wrong input: Collection requires specified vector name in the request, available names: dense, sparse''
   \<and> errorDetails_of (mock_runtime no_env) (mock_response 500 ''Internal Server Error'' (Inr (JObj [(''error'', JStr ''server error'')])))
       = JStr (mock_stringify (JObj [(''error'', JStr ''server error'')]))
   \<and> errorDetails_of (mock_runtime no_env) (mock_response 502 ''Bad Gateway'' (Inl (RuntimeFailure ''Unexpected token'')))
       = JStr ''Bad Gateway''"
proof -
  let ?rt = "mock_runtime no_env"
  let ?r3 = "mock_response 500 ''Internal Server Error'' (Inr (JObj [(''error'', JStr ''server error'')]))"
  let ?r4 = "mock_response 502 ''Bad Gateway'' (Inl (RuntimeFailure ''Unexpected token''))"
  have rt: "json_stringify ?rt = mock_stringify"
    by (simp add: mock_runtime_def)
  have n1: "\<not> ok gateway_error" and n2: "\<not> ok named_vector_error" and n3: "\<not> ok ?r3" and n4: "\<not> ok ?r4"
    by (simp_all add: gateway_error_def named_vector_error_def mock_response_def)
  have b1: "json_body gateway_error = Inr (JObj [(''error'', JObj [(''message'', JStr ''vector dimension mismatch'')]),
             (''status'', JObj [(''error'', JStr ''Wrong input'')])])"
    by (simp add: gateway_error_def mock_response_def)
  have d1: "errorDetails_of ?rt gateway_error = JStr ''vector dimension mismatch''"
    using error_message_priority [OF n1, of ?rt] b1 by simp
  obtain s1 where a1: "makeRequest test_config ?rt (''/collections/'' @ ''test-collection'' @ ''/points'')
      (upsertPoints_init ?rt []) (mock_state [Inr gateway_error]) = (Inr gateway_error, s1)"
    by (simp add: mock_state_def makeRequest_mock)
  have u1: "upsertPoints test_config ?rt ''test-collection'' [] (mock_state [Inr gateway_error])
      = (Inl (Error (''Failed to upsert points in collection '' @ [CHR 0x27] @ ''test-collection'' @ [CHR 0x27]
                 @ '': '' @ ''vector dimension mismatch'')), s1)"
    using error_message_priority [OF n1, of ?rt test_config "''test-collection''" "[]"] a1 d1 by blast
  have b2: "json_body named_vector_error = Inr (JObj [(''status'', JObj [(''error'',
                JStr ''Wrong input: Collection requires specified vector name in the request, available names: dense, sparse'')]),
             (''time'', JNum 0)])"
    by (simp add: named_vector_error_def mock_response_def)
  have d2: "errorDetails_of ?rt named_vector_error
       = JStr ''Wrong input: Collection requires specified vector name in the request, available names: dense, sparse''"
    using error_message_priority [OF n2, of ?rt] b2 by simp
  have b3: "json_body ?r3 = Inr (JObj [(''error'', JStr ''server error'')])"
    by (simp add: mock_response_def)
  have d3: "errorDetails_of ?rt ?r3 = JStr (mock_stringify (JObj [(''error'', JStr ''server error'')]))"
    using error_message_priority [OF n3, of ?rt] b3 by (simp add: rt)
  have b4: "json_body ?r4 = Inl (RuntimeFailure ''Unexpected token'')"
    by (simp add: mock_response_def)
  have d4: "errorDetails_of ?rt ?r4 = JStr ''Bad Gateway''"
    using error_message_priority [OF n4, of ?rt] b4 by (simp add: mock_response_def)
  from d1 u1 d2 d3 d4 show ?thesis by simp
qed

section \<open>The debug operation\<close>

lemma bind_io_InrE:
  assumes "bind_io m f s = (Inr r, s'')"
  obtains x s' where "m s = (Inr x, s')" and "f x s' = (Inr r, s'')"
  using assms by (auto simp: bind_io_cases)

lemma inspect_result:
  assumes "inspect srv rt c s = (Inr r, s')"
  shows "\<exists>text. r = [text]"
  using assms unfolding inspect_def
  by (elim bind_io_InrE) (auto simp: return_io_def)

lemma debug_in_returns: "\<exists>text. fst (debug_in srv rt c s) = Inr [text]"
proof (cases "inspect srv rt c s")
  case (Pair r s')
  show ?thesis
  proof (cases r)
    case (Inl e)
    with Pair show ?thesis by (simp add: debug_in_def try_catch_def return_io_def)
  next
    case (Inr ts)
    with Pair inspect_result [of srv rt c s ts s'] show ?thesis
      by (auto simp: debug_in_def try_catch_def)
  qed
qed

lemma debug_in_catches:
  "inspect srv rt c s = (Inl e, s') \<Longrightarrow>
     debug_in srv rt c s = (Inr [''Debug error: '' @ error_text e], s')"
  by (simp add: debug_in_def try_catch_def return_io_def)

lemma handleDebug_resolved:
  fixes args :: collection_args
  assumes "or_str (collection_name args) (defaultCollection srv) = Some c" and "c \<noteq> []"
  shows "handleDebug srv rt args = debug_in srv rt c"
  using assms by (simp add: handleDebug_def)

lemma handleDebug_unresolved:
  fixes args :: collection_args
  assumes "\<not> truthy_str (or_str (collection_name args) (defaultCollection srv))"
  shows "handleDebug srv rt args s = (Inl (Error ''Collection name is required''), s)"
  using assms
  by (cases "or_str (collection_name args) (defaultCollection srv)")
     (simp_all add: handleDebug_def throw_io_def)

lemma qdrant_debug_tool_returns: "\<exists>text. fst (qdrant_debug_tool srv rt targs s) = Inr [text]"
proof (cases "truthy_str (or_str (collection_name (debugArgs srv targs)) (defaultCollection srv))")
  case True
  then obtain c where c: "or_str (collection_name (debugArgs srv targs)) (defaultCollection srv) = Some c"
    and ne: "c \<noteq> []"
    by (cases "or_str (collection_name (debugArgs srv targs)) (defaultCollection srv)") auto
  from debug_in_returns [of srv rt c s] obtain t where "fst (debug_in srv rt c s) = Inr [t]" ..
  then show ?thesis
    by (cases "debug_in srv rt c s")
       (simp add: qdrant_debug_tool_def handleDebug_resolved [OF c ne] try_catch_def)
next
  case False
  then show ?thesis
    by (simp add: qdrant_debug_tool_def handleDebug_unresolved try_catch_def error_result_def
        return_io_def)
qed

text \<open>
  Claim C8 says that debug never raises an error to its caller.  \<^verbatim>\<open>handleDebug\<close> checks the
  collection name before it enters its \<^verbatim>\<open>try\<close> block, so a call without any collection
  name throws.
\<close>

theorem handleDebug_throws_without_collection:
  "fst (handleDebug (test_server None) (mock_runtime no_env) \<lparr>collection_name = None\<rparr> (mock_state []))
     = Inl (Error ''Collection name is required'')"
  by (simp add: handleDebug_def test_server_def or_str_def throw_io_def)

text \<open>
  Claim C8, amended.  When the collection name resolves, \<^verbatim>\<open>handleDebug\<close> always returns one
  text: a failure of the inspection is caught and returned as \<^verbatim>\<open>Debug error: <message>\<close>, and
  a finished inspection is returned as it is.  When no collection name resolves,
  \<^verbatim>\<open>handleDebug\<close> throws \<^verbatim>\<open>Collection name is required\<close> before it inspects anything, and
  the registered debug tool handler returns the text \<^verbatim>\<open>Error: Collection name is required\<close>.
  With a name, the tool handler returns what \<^verbatim>\<open>handleDebug\<close> returns for it.  So the tool
  handler returns one text for every call.
\<close>

theorem debug_reports_inspection_failures:
  fixes args :: collection_args and targs :: collection_args
  shows "(\<forall>c. or_str (collection_name args) (defaultCollection srv) = Some c \<and> c \<noteq> [] \<longrightarrow>
            (\<exists>text. fst (handleDebug srv rt args s) = Inr [text])
          \<and> (\<forall>e s'. inspect srv rt c s = (Inl e, s') \<longrightarrow>
                handleDebug srv rt args s = (Inr [''Debug error: '' @ error_text e], s'))
          \<and> (\<forall>r s'. inspect srv rt c s = (Inr r, s') \<longrightarrow>
                handleDebug srv rt args s = (Inr r, s')))
       \<and> (\<not> truthy_str (collection_name args) \<and> \<not> truthy_str (defaultCollection srv) \<longrightarrow>
            handleDebug srv rt args s = (Inl (Error ''Collection name is required''), s))
       \<and> (\<not> truthy_str (collection_name targs) \<and> \<not> truthy_str (defaultCollection srv) \<longrightarrow>
            qdrant_debug_tool srv rt targs s = (Inr [''Error: Collection name is required''], s))
       \<and> (\<forall>c. or_str (defaultCollection srv) (collection_name targs) = Some c \<and> c \<noteq> [] \<longrightarrow>
            qdrant_debug_tool srv rt targs s
              = handleDebug srv rt \<lparr>collection_name = Some c\<rparr> s)
       \<and> (\<exists>text. fst (qdrant_debug_tool srv rt targs s) = Inr [text])"
proof (intro conjI allI impI)
  fix c
  assume "or_str (collection_name args) (defaultCollection srv) = Some c \<and> c \<noteq> []"
  then have r: "handleDebug srv rt args = debug_in srv rt c"
    by (simp add: handleDebug_resolved)
  show "\<exists>text. fst (handleDebug srv rt args s) = Inr [text]"
    unfolding r by (rule debug_in_returns)
  show "handleDebug srv rt args s = (Inr [''Debug error: '' @ error_text e], s')"
    if "inspect srv rt c s = (Inl e, s')" for e s'
    unfolding r using that by (rule debug_in_catches)
  show "handleDebug srv rt args s = (Inr r, s')"
    if "inspect srv rt c s = (Inr r, s')" for r s'
    unfolding r using that by (simp add: debug_in_def try_catch_def)
next
  assume "\<not> truthy_str (collection_name args) \<and> \<not> truthy_str (defaultCollection srv)"
  then show "handleDebug srv rt args s = (Inl (Error ''Collection name is required''), s)"
    by (simp add: handleDebug_unresolved or_str_def)
next
  assume "\<not> truthy_str (collection_name targs) \<and> \<not> truthy_str (defaultCollection srv)"
  then have "\<not> truthy_str (or_str (collection_name (debugArgs srv targs)) (defaultCollection srv))"
    by (simp add: debugArgs_def or_str_def)
  then have "handleDebug srv rt (debugArgs srv targs) s
               = (Inl (Error ''Collection name is required''), s)"
    by (rule handleDebug_unresolved)
  then show "qdrant_debug_tool srv rt targs s = (Inr [''Error: Collection name is required''], s)"
    by (simp add: qdrant_debug_tool_def try_catch_def error_result_def return_io_def)
next
  fix c
  assume a: "or_str (defaultCollection srv) (collection_name targs) = Some c \<and> c \<noteq> []"
  then have h: "handleDebug srv rt (debugArgs srv targs) = debug_in srv rt c"
    by (simp add: handleDebug_def debugArgs_def or_str_def)
  from a have h': "handleDebug srv rt \<lparr>collection_name = Some c\<rparr> = debug_in srv rt c"
    by (simp add: handleDebug_def or_str_def)
  from debug_in_returns [of srv rt c s] obtain t where "fst (debug_in srv rt c s) = Inr [t]" ..
  then show "qdrant_debug_tool srv rt targs s = handleDebug srv rt \<lparr>collection_name = Some c\<rparr> s"
    unfolding h' by (cases "debug_in srv rt c s") (simp add: qdrant_debug_tool_def h try_catch_def)
next
  show "\<exists>text. fst (qdrant_debug_tool srv rt targs s) = Inr [text]"
    by (rule qdrant_debug_tool_returns)
qed

theorem debug_reports_inspection_failures_witness:
  "or_str (collection_name \<lparr>collection_name = Some ''memory''\<rparr>) (defaultCollection (test_server None))
     = Some ''memory''
   \<and> inspect (test_server None) (mock_runtime no_env) ''memory'' (mock_state [])
     = (Inl (TypeError ''fetch failed''),
        \<lparr>world = \<lparr>responses = [], clock = 1700000000000\<rparr>,
         trace = [Fetch ''http://localhost:6333/collections/memory''
                    \<lparr>method = None,
                     headers = Some [(''Content-Type'', ''application/json''), (''api-key'', ''test-api-key'')],
                     body = None\<rparr>]\<rparr>)
   \<and> fst (handleDebug (test_server None) (mock_runtime no_env) \<lparr>collection_name = Some ''memory''\<rparr>
            (mock_state []))
     = Inr [''Debug error: fetch failed'']
   \<and> handleDebug (test_server None) (mock_runtime no_env) \<lparr>collection_name = None\<rparr> (mock_state [])
     = (Inl (Error ''Collection name is required''), mock_state [])
   \<and> qdrant_debug_tool (test_server None) (mock_runtime no_env) \<lparr>collection_name = None\<rparr> (mock_state [])
     = (Inr [''Error: Collection name is required''], mock_state [])
   \<and> fst (qdrant_debug_tool (test_server None) (mock_runtime no_env)
            \<lparr>collection_name = Some ''memory''\<rparr> (mock_state []))
     = Inr [''Debug error: fetch failed'']"
proof -
  let ?srv = "test_server None"
  let ?rt = "mock_runtime no_env"
  let ?named = "\<lparr>collection_name = Some ''memory''\<rparr>"
  let ?unnamed = "\<lparr>collection_name = None\<rparr>"
  let ?s1 = "\<lparr>world = \<lparr>responses = [], clock = 1700000000000\<rparr>,
         trace = [Fetch ''http://localhost:6333/collections/memory''
                    \<lparr>method = None,
                     headers = Some [(''Content-Type'', ''application/json''), (''api-key'', ''test-api-key'')],
                     body = None\<rparr>]\<rparr>"
  have h1: "or_str (collection_name ?named) (defaultCollection ?srv) = Some ''memory''"
    by (simp add: or_str_def)
  have h1': "or_str (defaultCollection ?srv) (collection_name ?named) = Some ''memory''"
    by (simp add: or_str_def test_server_def)
  have h2: "''memory'' \<noteq> []" by simp
  have h3: "inspect ?srv ?rt ''memory'' (mock_state []) = (Inl (TypeError ''fetch failed''), ?s1)"
    by (simp add: inspect_def bind_io_def makeRequest_eq mock_eval test_server_def request_init_def)
  have h4: "\<not> truthy_str (collection_name ?unnamed) \<and> \<not> truthy_str (defaultCollection ?srv)"
    by (simp add: test_server_def)
  note T1 = debug_reports_inspection_failures [of ?named ?srv ?rt "mock_state []" ?named]
  note T2 = debug_reports_inspection_failures [of ?unnamed ?srv ?rt "mock_state []" ?unnamed]
  from T1 h1 h2 h3
  have r1: "handleDebug ?srv ?rt ?named (mock_state [])
      = (Inr [''Debug error: '' @ error_text (TypeError ''fetch failed'')], ?s1)"
    by blast
  from T2 h4
  have r2: "handleDebug ?srv ?rt ?unnamed (mock_state [])
      = (Inl (Error ''Collection name is required''), mock_state [])"
    and r3: "qdrant_debug_tool ?srv ?rt ?unnamed (mock_state [])
      = (Inr [''Error: Collection name is required''], mock_state [])"
    by blast+
  from T1 h1' h2
  have r4: "qdrant_debug_tool ?srv ?rt ?named (mock_state []) = handleDebug ?srv ?rt ?named (mock_state [])"
    by blast
  from h1 h3 r1 r2 r3 r4 show ?thesis by simp
qed

section \<open>The store operation\<close>

lemma snd_createCollection:
  "snd (createCollection config rt c n s) =
     snd (makeRequest config rt (''/collections/'' @ c) (createCollection_init rt n) s)"
  unfolding createCollection_def by (rule snd_bind_io_pure) simp

lemma snd_upsertPoints:
  "snd (upsertPoints config rt c points s) =
     snd (makeRequest config rt (''/collections/'' @ c @ ''/points'') (upsertPoints_init rt points) s)"
  unfolding upsertPoints_def by (rule snd_bind_io_pure) simp

lemma createCollection_trace:
  assumes "createCollection config rt c n s = (r, s')"
  shows "trace s' = trace s @ [Fetch (url config @ ''/collections/'' @ c)
                                (request_init config (createCollection_init rt n))]"
proof -
  have "s' = snd (createCollection config rt c n s)" using assms by simp
  then show ?thesis by (simp add: snd_createCollection snd_makeRequest)
qed

lemma upsertPoints_trace:
  assumes "upsertPoints config rt c points s = (r, s')"
  shows "trace s' = trace s @ [Fetch (url config @ ''/collections/'' @ c @ ''/points'')
                                (request_init config (upsertPoints_init rt points))]"
proof -
  have "s' = snd (upsertPoints config rt c points s)" using assms by simp
  then show ?thesis by (simp add: snd_upsertPoints snd_makeRequest)
qed

lemma do_embeddings_create_Inr:
  assumes "do_embeddings_create rt model input s = (Inr data, s')"
  shows "trace s' = trace s @ [EmbeddingsCreate model input]
       \<and> (\<exists>w. embeddings_create rt model input (world s) = (Inr data, w))"
  using assms by (auto simp: do_embeddings_create_def split: prod.splits)

lemma do_date_now_Inr:
  assumes "do_date_now rt s = (Inr t, s')"
  shows "trace s' = trace s \<and> date_now rt (world s) = (t, world s')"
  using assms by (auto simp: do_date_now_def split: prod.splits)

lemma first_embedding_Inr:
  assumes "lift_result (first_embedding data) s = (Inr e, s')"
  shows "s' = s \<and> (\<exists>rest. data = e # rest)"
  using assms by (cases data) (auto simp: lift_result_def)

lemma store_payload_mapping:
  assumes "meta = None \<or> (\<exists>kvs. meta = Some (JObj kvs))"
  shows "store_payload info stored meta =
           JObj ([(''information'', JStr info), (''stored_at'', JStr stored)]
                 @ (case meta of None \<Rightarrow> [] | Some m \<Rightarrow> [(''metadata'', m)]))"
  using assms by (auto simp: store_payload_def)

lemma store_in_success:
  fixes args :: store_args
  assumes run: "store_in srv rt c args s = (Inr result, s')"
  shows "\<exists>embedding now date.
           trace s' = trace s @
             [EmbeddingsCreate (embedding_model rt) (information args),
              Fetch (url (qdrantClient srv) @ ''/collections/'' @ c)
                (request_init (qdrantClient srv)
                   (createCollection_init rt (of_nat (length embedding)))),
              Fetch (url (qdrantClient srv) @ ''/collections/'' @ c @ ''/points'')
                (request_init (qdrantClient srv)
                   (upsertPoints_init rt
                      [JObj [(''id'', JStr (string_of_nat now)),
                             (''vector'', JArr (map JNum embedding)),
                             (''payload'', store_payload (information args)
                                             (date_toISOString rt date) (metadata args))]]))]
         \<and> (\<exists>rest w. embeddings_create rt (embedding_model rt) (information args) (world s)
                        = (Inr (embedding # rest), w))
         \<and> (\<exists>w w' w''. date_now rt w = (now, w') \<and> date_now rt w' = (date, w''))
         \<and> result = [''Information stored successfully in collection '' @ [CHR 0x27] @ c
                      @ [CHR 0x27] @ '' with ID: '' @ string_of_nat now]"
proof -
  from run obtain data s1 embedding s1' u s2 now s3 date s4 u' s5
    where e1: "do_embeddings_create rt (embedding_model rt) (information args) s = (Inr data, s1)"
      and e2: "lift_result (first_embedding data) s1 = (Inr embedding, s1')"
      and e3: "createCollection (qdrantClient srv) rt c (of_nat (length embedding)) s1' = (Inr u, s2)"
      and e4: "do_date_now rt s2 = (Inr now, s3)"
      and e5: "do_date_now rt s3 = (Inr date, s4)"
      and e6: "upsertPoints (qdrantClient srv) rt c
                [JObj [(''id'', JStr (string_of_nat now)),
                       (''vector'', JArr (map JNum embedding)),
                       (''payload'', store_payload (information args)
                                       (date_toISOString rt date) (metadata args))]] s4 = (Inr u', s5)"
      and k6: "return_io [''Information stored successfully in collection '' @ [CHR 0x27] @ c
                @ [CHR 0x27] @ '' with ID: '' @ string_of_nat now] s5 = (Inr result, s')"
    unfolding store_in_def by (elim bind_io_InrE) blast
  from first_embedding_Inr [OF e2] obtain rest where s1': "s1' = s1" and data: "data = embedding # rest"
    by blast
  from k6 have res: "result = [''Information stored successfully in collection '' @ [CHR 0x27] @ c
                @ [CHR 0x27] @ '' with ID: '' @ string_of_nat now]" and s5: "s' = s5"
    by (simp_all add: return_io_def)
  note t1 = do_embeddings_create_Inr [OF e1]
  note t3 = createCollection_trace [OF e3]
  note t4 = do_date_now_Inr [OF e4]
  note t5 = do_date_now_Inr [OF e5]
  note t6 = upsertPoints_trace [OF e6]
  have tr: "trace s' = trace s @
             [EmbeddingsCreate (embedding_model rt) (information args),
              Fetch (url (qdrantClient srv) @ ''/collections/'' @ c)
                (request_init (qdrantClient srv)
                   (createCollection_init rt (of_nat (length embedding)))),
              Fetch (url (qdrantClient srv) @ ''/collections/'' @ c @ ''/points'')
                (request_init (qdrantClient srv)
                   (upsertPoints_init rt
                      [JObj [(''id'', JStr (string_of_nat now)),
                             (''vector'', JArr (map JNum embedding)),
                             (''payload'', store_payload (information args)
                                             (date_toISOString rt date) (metadata args))]]))]"
    using t1 t3 t4 t5 t6 s1' s5 by simp
  from t1 data obtain w where emb: "embeddings_create rt (embedding_model rt) (information args) (world s)
                        = (Inr (embedding # rest), w)"
    by blast
  from t4 t5 have clk: "date_now rt (world s2) = (now, world s3) \<and> date_now rt (world s3) = (date, world s4)"
    by simp
  from tr emb clk res show ?thesis by blast
qed

lemma handleStore_Inr:
  fixes args :: store_args
  assumes "handleStore srv rt args s = (Inr result, s')"
  obtains c where "or_str (collection_name args) (defaultCollection srv) = Some c" and "c \<noteq> []"
    and "store_in srv rt c args s = (Inr result, s')"
  using assms
  by (cases "or_str (collection_name args) (defaultCollection srv)")
     (auto simp: handleStore_def throw_io_def split: if_splits)

lemma request_init_keeps:
  "method (request_init config options) = method options
   \<and> body (request_init config options) = body options"
  by (simp add: request_init_def Let_def)

text \<open>
  Claim C3.  Whenever \<^verbatim>\<open>handleStore\<close> succeeds, with metadata that is absent or a mapping, it
  has issued exactly three calls in this order: the embedding of \<^verbatim>\<open>information\<close>; a PUT to
  \<^verbatim>\<open>/collections/<name>\<close> whose body asks for cosine vectors of size the length of the
  embedding returned; and a PUT to \<^verbatim>\<open>/collections/<name>/points\<close> whose body holds exactly
  one point.  The point carries the embedding, an id that is the decimal rendering of a
  clock reading, and a payload of \<^verbatim>\<open>information\<close>, \<^verbatim>\<open>stored_at\<close> (the \<^verbatim>\<open>toISOString\<close>
  rendering of the next clock reading) and \<^verbatim>\<open>metadata\<close> exactly when the caller gave one.
  The single text returned contains the collection name and the id.  The creation request
  precedes the write, so a collection that did not exist is created before the point is
  written.
\<close>

theorem store_embeds_provisions_then_upserts:
  fixes args :: store_args
  assumes "handleStore srv rt args s = (Inr result, s')"
      and "metadata args = None \<or> (\<exists>kvs. metadata args = Some (JObj kvs))"
  shows "\<exists>c embedding now date confirmation point create_request write_request.
           or_str (collection_name args) (defaultCollection srv) = Some c \<and> c \<noteq> []
         \<and> trace s' = trace s @
             [EmbeddingsCreate (embedding_model rt) (information args),
              Fetch (url (qdrantClient srv) @ ''/collections/'' @ c) create_request,
              Fetch (url (qdrantClient srv) @ ''/collections/'' @ c @ ''/points'') write_request]
         \<and> create_request =
             request_init (qdrantClient srv)
               \<lparr>method = Some ''PUT'', headers = None,
                body = Some (json_stringify rt
                  (JObj [(''vectors'', JObj [(''size'', JNum (of_nat (length embedding))),
                                             (''distance'', JStr ''Cosine'')])]))\<rparr>
         \<and> method create_request = Some ''PUT''
         \<and> body create_request =
             Some (json_stringify rt
               (JObj [(''vectors'', JObj [(''size'', JNum (of_nat (length embedding))),
                                          (''distance'', JStr ''Cosine'')])]))
         \<and> write_request =
             request_init (qdrantClient srv)
               \<lparr>method = Some ''PUT'', headers = None,
                body = Some (json_stringify rt (JObj [(''points'', JArr [point])]))\<rparr>
         \<and> method write_request = Some ''PUT''
         \<and> body write_request = Some (json_stringify rt (JObj [(''points'', JArr [point])]))
         \<and> point =
             JObj [(''id'', JStr (string_of_nat now)),
                   (''vector'', JArr (map JNum embedding)),
                   (''payload'',
                      JObj ([(''information'', JStr (information args)),
                             (''stored_at'', JStr (date_toISOString rt date))]
                            @ (case metadata args of
                                 None \<Rightarrow> []
                               | Some m \<Rightarrow> [(''metadata'', m)])))]
         \<and> (\<exists>rest w. embeddings_create rt (embedding_model rt) (information args) (world s)
                        = (Inr (embedding # rest), w))
         \<and> (\<exists>w w' w''. date_now rt w = (now, w') \<and> date_now rt w' = (date, w''))
         \<and> result = [confirmation]
         \<and> confirmation = ''Information stored successfully in collection '' @ [CHR 0x27] @ c
                            @ [CHR 0x27] @ '' with ID: '' @ string_of_nat now
         \<and> sublist c confirmation \<and> sublist (string_of_nat now) confirmation"
proof -
  from assms(1) obtain c where c: "or_str (collection_name args) (defaultCollection srv) = Some c"
    and ne: "c \<noteq> []" and run: "store_in srv rt c args s = (Inr result, s')"
    by (rule handleStore_Inr)
  from store_in_success [OF run] obtain embedding now date where
    tr: "trace s' = trace s @
             [EmbeddingsCreate (embedding_model rt) (information args),
              Fetch (url (qdrantClient srv) @ ''/collections/'' @ c)
                (request_init (qdrantClient srv)
                   (createCollection_init rt (of_nat (length embedding)))),
              Fetch (url (qdrantClient srv) @ ''/collections/'' @ c @ ''/points'')
                (request_init (qdrantClient srv)
                   (upsertPoints_init rt
                      [JObj [(''id'', JStr (string_of_nat now)),
                             (''vector'', JArr (map JNum embedding)),
                             (''payload'', store_payload (information args)
                                             (date_toISOString rt date) (metadata args))]]))]"
    and emb: "\<exists>rest w. embeddings_create rt (embedding_model rt) (information args) (world s)
                        = (Inr (embedding # rest), w)"
    and clk: "\<exists>w w' w''. date_now rt w = (now, w') \<and> date_now rt w' = (date, w'')"
    and res: "result = [''Information stored successfully in collection '' @ [CHR 0x27] @ c
                      @ [CHR 0x27] @ '' with ID: '' @ string_of_nat now]"
    by blast
  let ?conf = "''Information stored successfully in collection '' @ [CHR 0x27] @ c
                 @ [CHR 0x27] @ '' with ID: '' @ string_of_nat now"
  let ?point = "JObj [(''id'', JStr (string_of_nat now)),
                   (''vector'', JArr (map JNum embedding)),
                   (''payload'',
                      JObj ([(''information'', JStr (information args)),
                             (''stored_at'', JStr (date_toISOString rt date))]
                            @ (case metadata args of
                                 None \<Rightarrow> []
                               | Some m \<Rightarrow> [(''metadata'', m)])))]"
  let ?creq = "request_init (qdrantClient srv)
               \<lparr>method = Some ''PUT'', headers = None,
                body = Some (json_stringify rt
                  (JObj [(''vectors'', JObj [(''size'', JNum (of_nat (length embedding))),
                                             (''distance'', JStr ''Cosine'')])]))\<rparr>"
  let ?wreq = "request_init (qdrantClient srv)
               \<lparr>method = Some ''PUT'', headers = None,
                body = Some (json_stringify rt (JObj [(''points'', JArr [?point])]))\<rparr>"
  have "sublist c ((''Information stored successfully in collection '' @ [CHR 0x27]) @ c
                 @ ([CHR 0x27] @ '' with ID: '' @ string_of_nat now))"
    by (rule sublist_appendI)
  then have sub_c: "sublist c ?conf" by simp
  have "sublist (string_of_nat now) ((''Information stored successfully in collection '' @ [CHR 0x27] @ c
                 @ [CHR 0x27] @ '' with ID: '') @ string_of_nat now @ [])"
    by (rule sublist_appendI)
  then have sub_id: "sublist (string_of_nat now) ?conf" by simp
  from tr have tr': "trace s' = trace s @
             [EmbeddingsCreate (embedding_model rt) (information args),
              Fetch (url (qdrantClient srv) @ ''/collections/'' @ c) ?creq,
              Fetch (url (qdrantClient srv) @ ''/collections/'' @ c @ ''/points'') ?wreq]"
    by (simp only: store_payload_mapping [OF assms(2)] createCollection_init_def
        upsertPoints_init_def)
  have mc: "method ?creq = Some ''PUT''"
    and bc: "body ?creq = Some (json_stringify rt
               (JObj [(''vectors'', JObj [(''size'', JNum (of_nat (length embedding))),
                                          (''distance'', JStr ''Cosine'')])]))"
    and mw: "method ?wreq = Some ''PUT''"
    and bw: "body ?wreq = Some (json_stringify rt (JObj [(''points'', JArr [?point])]))"
    by (simp_all add: request_init_keeps)
  from c ne tr' mc bc mw bw emb clk res sub_c sub_id show ?thesis
    by (intro exI [of _ c] exI [of _ embedding] exI [of _ now] exI [of _ date] exI [of _ ?conf]
              exI [of _ ?point] exI [of _ ?creq] exI [of _ ?wreq]) blast
qed

text \<open>
  A store of \<^verbatim>\<open>X\<close> into collection \<^verbatim>\<open>C\<close> with metadata, both requests answered 200: what
  is returned, and the three calls as they were issued.
\<close>

lemma handleStore_demo:
  "handleStore (test_server None) (mock_runtime no_env) store_demo_args
          (mock_state [Inr ok_response, Inr ok_response])
     = (Inr [''Information stored successfully in collection 'C' with ID: 1700000000000''],
        \<lparr>world = \<lparr>responses = [], clock = 1700000000002\<rparr>,
         trace =
           [EmbeddingsCreate ''text-embedding-3-small'' ''X'',
            Fetch ''http://localhost:6333/collections/C''
              \<lparr>method = Some ''PUT'',
               headers = Some [(''Content-Type'', ''application/json''), (''api-key'', ''test-api-key'')],
               body = Some (mock_stringify
                 (JObj [(''vectors'', JObj [(''size'', JNum 3), (''distance'', JStr ''Cosine'')])]))\<rparr>,
            Fetch ''http://localhost:6333/collections/C/points''
              \<lparr>method = Some ''PUT'',
               headers = Some [(''Content-Type'', ''application/json''), (''api-key'', ''test-api-key'')],
               body = Some (mock_stringify
                 (JObj [(''points'', JArr
                    [JObj [(''id'', JStr ''1700000000000''),
                           (''vector'', JArr [JNum (1 / 2), JNum (1 / 4), JNum 0]),
                           (''payload'',
                              JObj [(''information'', JStr ''X''),
                                    (''stored_at'', JStr ''T1700000000001Z''),
                                    (''metadata'', JObj [(''topic'', JStr ''demo'')])])]])]))\<rparr>]\<rparr>)"
  by (simp add: handleStore_def store_in_def store_demo_args_def ok_response_def or_str_def
      bind_io_def do_embeddings_create_def lift_result_def createCollection_def upsertPoints_def
      createCollection_init_def upsertPoints_init_def store_payload_def request_init_def
      makeRequest_eq do_date_now_def return_io_def throw_io_def test_server_def embedding_model_def
      mock_eval)

theorem store_embeds_provisions_then_upserts_witness:
  "handleStore (test_server None) (mock_runtime no_env) store_demo_args
          (mock_state [Inr ok_response, Inr ok_response])
     = (Inr [''Information stored successfully in collection 'C' with ID: 1700000000000''],
        \<lparr>world = \<lparr>responses = [], clock = 1700000000002\<rparr>,
         trace =
           [EmbeddingsCreate ''text-embedding-3-small'' ''X'',
            Fetch ''http://localhost:6333/collections/C''
              \<lparr>method = Some ''PUT'',
               headers = Some [(''Content-Type'', ''application/json''), (''api-key'', ''test-api-key'')],
               body = Some (mock_stringify
                 (JObj [(''vectors'', JObj [(''size'', JNum 3), (''distance'', JStr ''Cosine'')])]))\<rparr>,
            Fetch ''http://localhost:6333/collections/C/points''
              \<lparr>method = Some ''PUT'',
               headers = Some [(''Content-Type'', ''application/json''), (''api-key'', ''test-api-key'')],
               body = Some (mock_stringify
                 (JObj [(''points'', JArr
                    [JObj [(''id'', JStr ''1700000000000''),
                           (''vector'', JArr [JNum (1 / 2), JNum (1 / 4), JNum 0]),
                           (''payload'',
                              JObj [(''information'', JStr ''X''),
                                    (''stored_at'', JStr ''T1700000000001Z''),
                                    (''metadata'', JObj [(''topic'', JStr ''demo'')])])]])]))\<rparr>]\<rparr>)
   \<and> (\<exists>now date.
        map (\<lambda>c. case c of Fetch u init \<Rightarrow> (u, method init, body init)
                           | EmbeddingsCreate m i \<Rightarrow> (m, None, Some i))
          (trace (snd (handleStore (test_server None) (mock_runtime no_env) store_demo_args
                   (mock_state [Inr ok_response, Inr ok_response]))))
        = [(''text-embedding-3-small'', None, Some ''X''),
           (''http://localhost:6333/collections/C'', Some ''PUT'',
            Some (mock_stringify
              (JObj [(''vectors'', JObj [(''size'', JNum 3), (''distance'', JStr ''Cosine'')])]))),
           (''http://localhost:6333/collections/C/points'', Some ''PUT'',
            Some (mock_stringify
              (JObj [(''points'', JArr
                 [JObj [(''id'', JStr (string_of_nat now)),
                        (''vector'', JArr [JNum (1 / 2), JNum (1 / 4), JNum 0]),
                        (''payload'',
                           JObj [(''information'', JStr ''X''),
                                 (''stored_at'', JStr (''T'' @ string_of_nat date @ ''Z'')),
                                 (''metadata'', JObj [(''topic'', JStr ''demo'')])])]])])))])"
proof -
  let ?srv = "test_server None"
  let ?rt = "mock_runtime no_env"
  let ?s0 = "mock_state [Inr ok_response, Inr ok_response]"
  obtain s' where
    h1: "handleStore ?srv ?rt store_demo_args ?s0
        = (Inr [''Information stored successfully in collection 'C' with ID: 1700000000000''], s')"
    by (simp add: handleStore_demo)
  have h2: "metadata store_demo_args = None \<or> (\<exists>kvs. metadata store_demo_args = Some (JObj kvs))"
    by (simp add: store_demo_args_def)
  from store_embeds_provisions_then_upserts [OF h1 h2]
  obtain c embedding now date point create_request write_request where
    c: "or_str (collection_name store_demo_args) (defaultCollection ?srv) = Some c"
    and tr: "trace s' = trace ?s0 @
             [EmbeddingsCreate (embedding_model ?rt) (information store_demo_args),
              Fetch (url (qdrantClient ?srv) @ ''/collections/'' @ c) create_request,
              Fetch (url (qdrantClient ?srv) @ ''/collections/'' @ c @ ''/points'') write_request]"
    and mc: "method create_request = Some ''PUT''"
    and bc: "body create_request = Some (json_stringify ?rt
               (JObj [(''vectors'', JObj [(''size'', JNum (of_nat (length embedding))),
                                          (''distance'', JStr ''Cosine'')])]))"
    and mw: "method write_request = Some ''PUT''"
    and bw: "body write_request = Some (json_stringify ?rt (JObj [(''points'', JArr [point])]))"
    and pt: "point =
             JObj [(''id'', JStr (string_of_nat now)),
                   (''vector'', JArr (map JNum embedding)),
                   (''payload'',
                      JObj ([(''information'', JStr (information store_demo_args)),
                             (''stored_at'', JStr (date_toISOString ?rt date))]
                            @ (case metadata store_demo_args of
                                 None \<Rightarrow> []
                               | Some m \<Rightarrow> [(''metadata'', m)])))]"
    and emb: "\<exists>rest w. embeddings_create ?rt (embedding_model ?rt) (information store_demo_args)
                 (world ?s0) = (Inr (embedding # rest), w)"
    by blast
  from c have c': "c = ''C''"
    by (simp add: store_demo_args_def or_str_def)
  from emb have e': "embedding = [1 / 2, 1 / 4, 0]"
    by (simp add: mock_runtime_def)
  have m: "embedding_model ?rt = ''text-embedding-3-small''"
    "date_toISOString ?rt = (\<lambda>t. ''T'' @ string_of_nat t @ ''Z'')"
    "json_stringify ?rt = mock_stringify"
    by (simp_all add: embedding_model_def mock_runtime_def no_env_def or_str_def)
  have "map (\<lambda>c. case c of Fetch u init \<Rightarrow> (u, method init, body init)
                           | EmbeddingsCreate m i \<Rightarrow> (m, None, Some i)) (trace s')
        = [(''text-embedding-3-small'', None, Some ''X''),
           (''http://localhost:6333/collections/C'', Some ''PUT'',
            Some (mock_stringify
              (JObj [(''vectors'', JObj [(''size'', JNum 3), (''distance'', JStr ''Cosine'')])]))),
           (''http://localhost:6333/collections/C/points'', Some ''PUT'',
            Some (mock_stringify
              (JObj [(''points'', JArr
                 [JObj [(''id'', JStr (string_of_nat now)),
                        (''vector'', JArr [JNum (1 / 2), JNum (1 / 4), JNum 0]),
                        (''payload'',
                           JObj [(''information'', JStr ''X''),
                                 (''stored_at'', JStr (''T'' @ string_of_nat date @ ''Z'')),
                                 (''metadata'', JObj [(''topic'', JStr ''demo'')])])]])])))]"
    by (simp add: tr mc bc mw bw pt c' e' m store_demo_args_def test_server_def mock_state_def
        test_config_def)
  with h1 handleStore_demo show ?thesis by auto
qed

section \<open>The find operation\<close>

lemma format_result_hit:
  assumes "map_of kvs ''score'' = Some (JNum n)" and "map_of kvs ''payload'' = Some (JObj p)"
  shows "format_result rt (JObj kvs) i =
           Inr (''Result '' @ string_of_nat (i + 1) @ '' (Score: '' @ number_toFixed rt 4 n @ ''):''
                @ [CHR 0x0A]
                @ (if debug_mode rt
                   then ''Debug - Payload keys: '' @ join '', '' (map fst p) @ [CHR 0x0A]
                   else [])
                @ ''Detail: '' @ json_stringify rt (JObj p) @ [CHR 0x0A])"
  using assms by (simp add: format_result_def bind_result_def Let_def)

lemma map_from_total:
  assumes "\<forall>x\<in>set xs. \<forall>j. \<exists>y. f x j = Inr y"
  shows "\<exists>ys. map_from f i xs = Inr ys"
  using assms
proof (induction xs arbitrary: i)
  case Nil
  then show ?case by simp
next
  case (Cons x xs)
  from Cons.prems obtain y where y: "f x i = Inr y" by (meson list.set_intros(1))
  from Cons.IH [of "Suc i"] Cons.prems obtain ys where "map_from f (Suc i) xs = Inr ys"
    by (meson list.set_intros(2))
  with y show ?case by (simp add: bind_result_def)
qed

lemma map_from_Inr:
  assumes "map_from f i xs = Inr ys"
  shows "length ys = length xs \<and> (\<forall>j<length xs. f (xs ! j) (i + j) = Inr (ys ! j))"
  using assms
proof (induction xs arbitrary: i ys)
  case Nil
  then show ?case by simp
next
  case (Cons x xs)
  from Cons.prems obtain y ys' where y: "f x i = Inr y" and rest: "map_from f (Suc i) xs = Inr ys'"
    and ys: "ys = y # ys'"
    by (auto simp: bind_result_def split: sum.splits)
  from Cons.IH [OF rest] have len: "length ys' = length xs"
    and nth: "\<forall>j<length xs. f (xs ! j) (Suc i + j) = Inr (ys' ! j)"
    by simp_all
  show ?case
  proof (intro conjI allI impI)
    show "length ys = length (x # xs)" using len ys by simp
  next
    fix j assume "j < length (x # xs)"
    then show "f ((x # xs) ! j) (i + j) = Inr (ys ! j)"
      using y nth ys by (cases j) simp_all
  qed
qed

lemma find_in_found:
  fixes args :: find_args
  assumes "do_embeddings_create rt (embedding_model rt) (query args) s = (Inr (qv # rest), s1)"
      and "searchPoints (qdrantClient srv) rt c qv (Some 5)
             (map_option vector_name_string (vector_name args)) s1 = (Inr results, s2)"
  shows "find_in srv rt c args s = (find_response rt (query args) results, s2)"
  using assms by (simp add: find_in_def bind_io_def lift_result_def)

lemma handleFind_resolved:
  fixes args :: find_args
  assumes "or_str (collection_name args) (defaultCollection srv) = Some c" and "c \<noteq> []"
  shows "handleFind srv rt args = find_in srv rt c args"
  using assms by (simp add: handleFind_def)

lemma find_request_body:
  "search_requestBody qv (Some 5) (map_option vector_name_string vname) =
     JObj [(''limit'', JNum 5), (''with_payload'', JBool True),
           (''vector'',
              case vname of
                None \<Rightarrow> JArr (map JNum qv)
              | Some v \<Rightarrow> JObj [(''name'', JStr (vector_name_string v)),
                                 (''vector'', JArr (map JNum qv))])]"
proof (cases vname)
  case None
  then show ?thesis by (simp add: search_requestBody_def)
next
  case (Some v)
  then show ?thesis by (cases v) (simp_all add: search_requestBody_def)
qed

text \<open>
  Claim C4.  Take a \<^verbatim>\<open>handleFind\<close> call whose collection name resolves, whose query is
  embedded, and whose search returns an array of hits.  The search request it sent has
  \<^verbatim>\<open>limit\<close> 5.  If the array is empty, the call returns exactly one text saying that no
  relevant information was found for the query.  Otherwise, when every hit has a numeric
  score and a payload object, it returns one text per hit, in order; the text of hit \<open>i\<close>
  (counting from 0) carries the rank \<open>i + 1\<close>, the score rendered by \<^verbatim>\<open>toFixed(4)\<close> and the
  payload rendered by \<^verbatim>\<open>JSON.stringify\<close>.
\<close>

theorem find_returns_one_message_per_result:
  fixes args :: find_args
  assumes "or_str (collection_name args) (defaultCollection srv) = Some c" and "c \<noteq> []"
      and "do_embeddings_create rt (embedding_model rt) (query args) s = (Inr (qv # rest), s1)"
      and "searchPoints (qdrantClient srv) rt c qv (Some 5)
             (map_option vector_name_string (vector_name args)) s1 = (Inr (JArr hits), s2)"
  shows "trace (snd (handleFind srv rt args s)) = trace s @
           [EmbeddingsCreate (embedding_model rt) (query args),
            Fetch (url (qdrantClient srv) @ ''/collections/'' @ c @ ''/points/search'')
              (request_init (qdrantClient srv)
                 \<lparr>method = Some ''POST'', headers = None,
                  body = Some (json_stringify rt
                    (JObj [(''limit'', JNum 5), (''with_payload'', JBool True),
                           (''vector'',
                              case vector_name args of
                                None \<Rightarrow> JArr (map JNum qv)
                              | Some v \<Rightarrow> JObj [(''name'', JStr (vector_name_string v)),
                                                 (''vector'', JArr (map JNum qv))])]))\<rparr>)]
       \<and> (hits = [] \<longrightarrow>
            handleFind srv rt args s =
              (Inr [''No relevant information found for query: \"'' @ query args @ ''\"''], s2))
       \<and> (hits \<noteq> []
            \<and> (\<forall>h\<in>set hits. \<exists>kvs n p. h = JObj kvs \<and> map_of kvs ''score'' = Some (JNum n)
                                      \<and> map_of kvs ''payload'' = Some (JObj p)) \<longrightarrow>
            (\<exists>msgs. handleFind srv rt args s = (Inr msgs, s2) \<and> length msgs = length hits
               \<and> (\<forall>i<length hits. \<exists>kvs n p.
                     hits ! i = JObj kvs \<and> map_of kvs ''score'' = Some (JNum n)
                   \<and> map_of kvs ''payload'' = Some (JObj p)
                   \<and> msgs ! i =
                       ''Result '' @ string_of_nat (i + 1) @ '' (Score: '' @ number_toFixed rt 4 n
                       @ ''):'' @ [CHR 0x0A]
                       @ (if debug_mode rt
                          then ''Debug - Payload keys: '' @ join '', '' (map fst p) @ [CHR 0x0A]
                          else [])
                       @ ''Detail: '' @ json_stringify rt (JObj p) @ [CHR 0x0A])))"
proof -
  have run: "handleFind srv rt args s = (find_response rt (query args) (JArr hits), s2)"
    by (simp only: handleFind_resolved [OF assms(1,2)] find_in_found [OF assms(3,4)])
  show ?thesis
  proof (intro conjI impI)
  have "trace s1 = trace s @ [EmbeddingsCreate (embedding_model rt) (query args)]"
    using do_embeddings_create_Inr [OF assms(3)] by simp
  moreover have "trace s2 = trace s1 @
      [Fetch (url (qdrantClient srv) @ ''/collections/'' @ c @ ''/points/search'')
         (request_init (qdrantClient srv)
            (searchPoints_init rt (search_requestBody qv (Some 5)
               (map_option vector_name_string (vector_name args)))))]"
    using searchPoints_trace [of "qdrantClient srv" rt c qv "Some 5"
        "map_option vector_name_string (vector_name args)" s1] assms(4)
    by simp
  ultimately show "trace (snd (handleFind srv rt args s)) = trace s @
           [EmbeddingsCreate (embedding_model rt) (query args),
            Fetch (url (qdrantClient srv) @ ''/collections/'' @ c @ ''/points/search'')
              (request_init (qdrantClient srv)
                 \<lparr>method = Some ''POST'', headers = None,
                  body = Some (json_stringify rt
                    (JObj [(''limit'', JNum 5), (''with_payload'', JBool True),
                           (''vector'',
                              case vector_name args of
                                None \<Rightarrow> JArr (map JNum qv)
                              | Some v \<Rightarrow> JObj [(''name'', JStr (vector_name_string v)),
                                                 (''vector'', JArr (map JNum qv))])]))\<rparr>)]"
    by (simp add: run find_request_body searchPoints_init_def)
next
  assume "hits = []"
  with run show "handleFind srv rt args s =
      (Inr [''No relevant information found for query: \"'' @ query args @ ''\"''], s2)"
    by (simp add: find_response_def)
next
  assume wf: "hits \<noteq> []
            \<and> (\<forall>h\<in>set hits. \<exists>kvs n p. h = JObj kvs \<and> map_of kvs ''score'' = Some (JNum n)
                                      \<and> map_of kvs ''payload'' = Some (JObj p))"
  then have ne: "hits \<noteq> []"
    and shape: "\<And>h. h \<in> set hits \<Longrightarrow> \<exists>kvs n p. h = JObj kvs \<and> map_of kvs ''score'' = Some (JNum n)
                                      \<and> map_of kvs ''payload'' = Some (JObj p)"
    by blast+
  have "\<forall>x\<in>set hits. \<forall>j. \<exists>y. format_result rt x j = Inr y"
    using shape format_result_hit by blast
  from map_from_total [OF this] obtain msgs where m: "map_from (format_result rt) 0 hits = Inr msgs"
    by blast
  from map_from_Inr [OF m] have len: "length msgs = length hits"
    and each: "\<And>j. j < length hits \<Longrightarrow> format_result rt (hits ! j) j = Inr (msgs ! j)"
    by simp_all
  have res: "handleFind srv rt args s = (Inr msgs, s2)"
    using run ne m by (simp add: find_response_def)
  have "\<exists>kvs n p. hits ! i = JObj kvs \<and> map_of kvs ''score'' = Some (JNum n)
                   \<and> map_of kvs ''payload'' = Some (JObj p)
                   \<and> msgs ! i =
                       ''Result '' @ string_of_nat (i + 1) @ '' (Score: '' @ number_toFixed rt 4 n
                       @ ''):'' @ [CHR 0x0A]
                       @ (if debug_mode rt
                          then ''Debug - Payload keys: '' @ join '', '' (map fst p) @ [CHR 0x0A]
                          else [])
                       @ ''Detail: '' @ json_stringify rt (JObj p) @ [CHR 0x0A]"
    if i: "i < length hits" for i
  proof -
    from shape [of "hits ! i"] i obtain kvs n p where h: "hits ! i = JObj kvs"
      and sc: "map_of kvs ''score'' = Some (JNum n)" and pl: "map_of kvs ''payload'' = Some (JObj p)"
      by auto
    from each [OF i] h format_result_hit [OF sc pl, of rt i]
    have "msgs ! i = ''Result '' @ string_of_nat (i + 1) @ '' (Score: '' @ number_toFixed rt 4 n
                       @ ''):'' @ [CHR 0x0A]
                       @ (if debug_mode rt
                          then ''Debug - Payload keys: '' @ join '', '' (map fst p) @ [CHR 0x0A]
                          else [])
                       @ ''Detail: '' @ json_stringify rt (JObj p) @ [CHR 0x0A]"
      by simp
    with h sc pl show ?thesis by blast
  qed
  with res len show "\<exists>msgs. handleFind srv rt args s = (Inr msgs, s2) \<and> length msgs = length hits
               \<and> (\<forall>i<length hits. \<exists>kvs n p.
                     hits ! i = JObj kvs \<and> map_of kvs ''score'' = Some (JNum n)
                   \<and> map_of kvs ''payload'' = Some (JObj p)
                   \<and> msgs ! i =
                       ''Result '' @ string_of_nat (i + 1) @ '' (Score: '' @ number_toFixed rt 4 n
                       @ ''):'' @ [CHR 0x0A]
                       @ (if debug_mode rt
                          then ''Debug - Payload keys: '' @ join '', '' (map fst p) @ [CHR 0x0A]
                          else [])
                       @ ''Detail: '' @ json_stringify rt (JObj p) @ [CHR 0x0A])"
    by blast
  qed
qed

lemma searchPoints_mock_ok:
  "searchPoints test_config (mock_runtime env) c qv limit vn
     \<lparr>world = \<lparr>responses = [Inr (mock_response 200 ''OK'' (Inr (JObj [(''result'', JArr hits)])))],
               clock = t\<rparr>, trace = tr\<rparr>
   = (Inr (JArr hits),
      \<lparr>world = \<lparr>responses = [], clock = t\<rparr>,
       trace = tr @ [Fetch (url test_config @ ''/collections/'' @ c @ ''/points/search'')
                       (request_init test_config
                          (searchPoints_init (mock_runtime env) (search_requestBody qv limit vn)))]\<rparr>)"
  by (simp add: searchPoints_def Let_def bind_io_def makeRequest_mock mock_response_def
      response_json_def lift_result_def return_io_def)

lemma do_embeddings_create_mock:
  "do_embeddings_create (mock_runtime env) model input \<lparr>world = w, trace = tr\<rparr>
   = (Inr [[1 / 2, 1 / 4, 0]], \<lparr>world = w, trace = tr @ [EmbeddingsCreate model input]\<rparr>)"
  by (simp add: do_embeddings_create_def mock_runtime_def)

theorem find_returns_one_message_per_result_witness:
  "fst (handleFind (test_server None) (mock_runtime no_env) (find_demo_args ''unknown topic'')
          (mock_state [Inr (mock_response 200 ''OK'' (Inr (JObj [(''result'', JArr [])])))]))
     = Inr [''No relevant information found for query: \"unknown topic\"'']
   \<and> fst (handleFind (test_server None) (mock_runtime no_env) (find_demo_args ''test'')
          (mock_state [Inr (mock_response 200 ''OK'' (Inr (JObj [(''result'', JArr [one_hit])])))]))
     = Inr [''Result 1 (Score: 0.9500):'' @ [CHR 0x0A]
            @ ''Detail: {\"information\":\"test information\"}'' @ [CHR 0x0A]]"
proof -
  let ?srv = "test_server None"
  let ?rt = "mock_runtime no_env"
  let ?m = "embedding_model ?rt"
  let ?qv = "[1 / 2, 1 / 4, 0] :: real list"
  have name: "\<And>q. or_str (collection_name (find_demo_args q)) (defaultCollection ?srv) = Some ''test-collection''"
    by (simp add: find_demo_args_def or_str_def)
  have ne: "''test-collection'' \<noteq> []" by simp
  have cfg: "qdrantClient ?srv = test_config"
    by (simp add: test_server_def)
  have vn: "\<And>q. vector_name (find_demo_args q) = Some Dense" and qq: "\<And>q. query (find_demo_args q) = q"
    by (simp_all add: find_demo_args_def)
  \<comment> \<open>no result\<close>
  let ?s0 = "mock_state [Inr (mock_response 200 ''OK'' (Inr (JObj [(''result'', JArr [])])))]"
  obtain s1 where e1: "do_embeddings_create ?rt ?m (query (find_demo_args ''unknown topic'')) ?s0
      = (Inr (?qv # []), s1)"
    and s1: "s1 = \<lparr>world = \<lparr>responses = [Inr (mock_response 200 ''OK'' (Inr (JObj [(''result'', JArr [])])))],
                             clock = 1700000000000\<rparr>,
                   trace = [] @ [EmbeddingsCreate ?m ''unknown topic'']\<rparr>"
    by (simp add: mock_state_def do_embeddings_create_mock qq)
  obtain s2 where f1: "searchPoints (qdrantClient ?srv) ?rt ''test-collection'' ?qv (Some 5)
             (map_option vector_name_string (vector_name (find_demo_args ''unknown topic''))) s1
      = (Inr (JArr []), s2)"
    unfolding s1 cfg by (simp add: searchPoints_mock_ok)
  from find_returns_one_message_per_result [OF name ne e1 f1]
  have r1: "handleFind ?srv ?rt (find_demo_args ''unknown topic'') ?s0
      = (Inr [''No relevant information found for query: \"'' @ query (find_demo_args ''unknown topic'') @ ''\"''], s2)"
    by blast
  \<comment> \<open>one result\<close>
  let ?t0 = "mock_state [Inr (mock_response 200 ''OK'' (Inr (JObj [(''result'', JArr [one_hit])])))]"
  obtain t1 where e2: "do_embeddings_create ?rt ?m (query (find_demo_args ''test'')) ?t0
      = (Inr (?qv # []), t1)"
    and t1: "t1 = \<lparr>world = \<lparr>responses = [Inr (mock_response 200 ''OK'' (Inr (JObj [(''result'', JArr [one_hit])])))],
                             clock = 1700000000000\<rparr>,
                   trace = [] @ [EmbeddingsCreate ?m ''test'']\<rparr>"
    by (simp add: mock_state_def do_embeddings_create_mock qq)
  obtain t2 where f2: "searchPoints (qdrantClient ?srv) ?rt ''test-collection'' ?qv (Some 5)
             (map_option vector_name_string (vector_name (find_demo_args ''test''))) t1
      = (Inr (JArr [one_hit]), t2)"
    unfolding t1 cfg by (simp add: searchPoints_mock_ok)
  have "\<exists>kvs n p. one_hit = JObj kvs
      \<and> map_of kvs ''score'' = Some (JNum n) \<and> map_of kvs ''payload'' = Some (JObj p)"
    unfolding one_hit_def
    by (intro exI [of _ "[(''id'', JStr ''1''), (''score'', JNum (19 / 20)),
                   (''payload'', JObj [(''information'', JStr ''test information'')])]"]
              exI [of _ "19 / 20"] exI [of _ "[(''information'', JStr ''test information'')]"])
       simp
  then have shape: "[one_hit] \<noteq> [] \<and> (\<forall>h\<in>set [one_hit]. \<exists>kvs n p. h = JObj kvs
      \<and> map_of kvs ''score'' = Some (JNum n) \<and> map_of kvs ''payload'' = Some (JObj p))"
    by simp
  from find_returns_one_message_per_result [OF name ne e2 f2] shape
  obtain msgs where r2: "handleFind ?srv ?rt (find_demo_args ''test'') ?t0 = (Inr msgs, t2)"
    and len: "length msgs = length [one_hit]"
    and each: "\<forall>i<length [one_hit]. \<exists>kvs n p.
                     [one_hit] ! i = JObj kvs \<and> map_of kvs ''score'' = Some (JNum n)
                   \<and> map_of kvs ''payload'' = Some (JObj p)
                   \<and> msgs ! i =
                       ''Result '' @ string_of_nat (i + 1) @ '' (Score: '' @ number_toFixed ?rt 4 n
                       @ ''):'' @ [CHR 0x0A]
                       @ (if debug_mode ?rt
                          then ''Debug - Payload keys: '' @ join '', '' (map fst p) @ [CHR 0x0A]
                          else [])
                       @ ''Detail: '' @ json_stringify ?rt (JObj p) @ [CHR 0x0A]"
    by blast
  from each [rule_format, of 0] obtain kvs n p where k: "[one_hit] ! 0 = JObj kvs"
    and sc: "map_of kvs ''score'' = Some (JNum n)" and pl: "map_of kvs ''payload'' = Some (JObj p)"
    and mm: "msgs ! 0 = ''Result '' @ string_of_nat (0 + 1) @ '' (Score: ''
        @ number_toFixed ?rt 4 n @ ''):'' @ [CHR 0x0A]
        @ (if debug_mode ?rt
           then ''Debug - Payload keys: '' @ join '', '' (map fst p) @ [CHR 0x0A]
           else [])
        @ ''Detail: '' @ json_stringify ?rt (JObj p) @ [CHR 0x0A]"
    by auto
  from k have kvs: "kvs = [(''id'', JStr ''1''), (''score'', JNum (19 / 20)),
                   (''payload'', JObj [(''information'', JStr ''test information'')])]"
    by (simp add: one_hit_def)
  from sc kvs have n: "n = 19 / 20" by simp
  from pl kvs have p: "p = [(''information'', JStr ''test information'')]" by simp
  note m0 = mm [unfolded n p]
  have "msgs ! 0 = ''Result 1 (Score: 0.9500):'' @ [CHR 0x0A]
            @ ''Detail: {\"information\":\"test information\"}'' @ [CHR 0x0A]"
    unfolding m0
    by (simp add: mock_eval debug_mode_def mock_stringify.simps)
  moreover from len have "msgs = [msgs ! 0]"
    by (cases msgs) simp_all
  ultimately have "msgs = [''Result 1 (Score: 0.9500):'' @ [CHR 0x0A]
            @ ''Detail: {\"information\":\"test information\"}'' @ [CHR 0x0A]]"
    by simp
  with r1 r2 show ?thesis by (simp add: qq)
qed

section \<open>Behaviour outside the shapes above\<close>

text \<open>
  The theorems above speak of bodies that are objects, of error fields that hold text and
  of hits with a numeric score.  What the code does elsewhere is recorded here: a body
  that is JSON \<^verbatim>\<open>null\<close> makes a property access throw; an empty error message falls
  through to the next field; an error field that is no text breaks \<^verbatim>\<open>includes\<close>; a hit
  without score or payload is rendered with \<^verbatim>\<open>0\<close> and \<^verbatim>\<open>{}\<close>; metadata that is falsy is
  left out; and the registered tool handlers turn every throw into a text.
\<close>

lemma searchPoints_null_body:
  assumes "makeRequest config rt (''/collections/'' @ c @ ''/points/search'')
             (searchPoints_init rt (search_requestBody q limit vn)) s = (Inr response, s')"
      and "ok response" and "json_body response = Inr JNull"
  shows "searchPoints config rt c q limit vn s =
           (Inl (TypeError ''Cannot read properties of null (reading 'result')''), s')"
  using assms
  by (simp add: searchPoints_def Let_def bind_io_def response_json_def lift_result_def)

lemma errorDetails_null_body:
  assumes "json_body response = Inr JNull"
  shows "errorDetails_of rt response = JStr (statusText response)"
  using assms by (simp add: errorDetails_of_def errorDetails_try_def bind_result_def)

lemma errorDetails_empty_message:
  assumes "json_body response =
             Inr (JObj [(''error'', JObj [(''message'', JStr [])]),
                        (''status'', JObj [(''error'', JStr ''boom'')])])"
  shows "errorDetails_of rt response = JStr ''boom''"
  using assms by (simp add: errorDetails_of_def errorDetails_try_def bind_result_def)

lemma searchPoints_details_not_text:
  assumes "makeRequest config rt (''/collections/'' @ c @ ''/points/search'')
             (searchPoints_init rt (search_requestBody q limit vn)) s = (Inr response, s')"
      and "\<not> ok response" and "errorDetails_of rt response = JNum n"
  shows "searchPoints config rt c q limit vn s =
           (Inl (TypeError ''errorDetails.includes is not a function''), s')"
  using searchPoints_not_ok [OF assms(1,2)] assms(3)
  by (simp add: with_hint_def bind_result_def)

lemma format_result_defaults:
  "format_result rt (JObj []) i =
     Inr (''Result '' @ string_of_nat (i + 1) @ '' (Score: '' @ number_toFixed rt 4 0 @ ''):''
          @ [CHR 0x0A]
          @ (if debug_mode rt then ''Debug - Payload keys: '' @ [CHR 0x0A] else [])
          @ ''Detail: '' @ json_stringify rt (JObj []) @ [CHR 0x0A])"
  by (simp add: format_result_def bind_result_def Let_def)

lemma format_result_text_score:
  assumes "map_of kvs ''score'' = Some (JStr t)" and "t \<noteq> []"
  shows "format_result rt (JObj kvs) i = Inl (TypeError ''score.toFixed is not a function'')"
  using assms by (simp add: format_result_def bind_result_def Let_def)

lemma store_payload_falsy_metadata:
  "store_payload info stored (Some JNull) =
     JObj [(''information'', JStr info), (''stored_at'', JStr stored)]"
  by (simp add: store_payload_def)

lemma try_catch_error_result:
  "\<exists>r. fst (try_catch m error_result s) = Inr r"
  by (cases "m s"; cases "fst (m s)")
     (auto simp: try_catch_def error_result_def return_io_def)

lemma tool_handlers_never_throw:
  "(\<exists>r. fst (qdrant_store_tool srv rt sa s) = Inr r)
   \<and> (\<exists>r. fst (qdrant_find_tool srv rt fa s) = Inr r)
   \<and> (\<exists>r. fst (qdrant_debug_tool srv rt da s) = Inr r)"
  by (simp add: qdrant_store_tool_def qdrant_find_tool_def qdrant_debug_tool_def
      try_catch_error_result)

end
